theory Spec2Isabelle
  imports Complex_Main "HOL-Library.Word"
begin

section \<open>The primary-muon skimmer (skimmerPrimaryMuon.cxx)\<close>

text \<open>
  A shallow embedding of \<^verbatim>\<open>PWGEM/Dilepton/TableProducer/skimmerPrimaryMuon.cxx\<close>:
  the acceptance predicate \<^verbatim>\<open>isSelected\<close>, the candidate builder
  \<^verbatim>\<open>fillFwdTrackTable\<close> and the two cross-reference producers
  \<^verbatim>\<open>associateAmbiguousMuon::process\<close> and \<^verbatim>\<open>associateSameMFT::process\<close>.

  Numbers. The arguments of \<^verbatim>\<open>isSelected\<close> are values of the type \<open>ieee\<close> below: a
  finite number, an infinity or NaN, compared as IEEE-754 compares them. The predicate
  only compares, so this is all of its \<^verbatim>\<open>float\<close> behaviour. In the candidate builder a
  C++ \<^verbatim>\<open>float\<close> is the real number it denotes, and \<open>+\<close>, \<open>-\<close>, \<open>*\<close>, \<open>sqrt\<close>,
  \<open>sin\<close>, \<open>atan\<close>, \<open>exp\<close> are the real operations: the columns read are taken to be
  finite, and the rounding and the overflow of binary32 are not modelled, so what is
  proved of a computed quantity is proved of its exact value. A division whose divisor
  may be zero is carried out in \<open>ieee\<close>.
  Integer columns (indices, cluster counts) are \<open>int\<close>: the program only compares and
  copies them, apart from the number of degrees of freedom, which stays far from any
  machine bound. The track type is the \<^verbatim>\<open>uint8_t\<close> the predicate receives.
\<close>

subsection \<open>Track categories\<close>

text \<open>
  \<^verbatim>\<open>o2::aod::fwdtrack::ForwardTrackTypeEnum\<close> is an \<^verbatim>\<open>enum : uint8_t\<close> of the
  framework. The source fills the histogram \<^verbatim>\<open>hMuonType\<close> (five bins centred on 0..4,
  labelled in this order) with the raw value, which fixes the numbering.
\<close>

type_synonym uint8_t = "8 word"

definition GlobalMuonTrack :: uint8_t where "GlobalMuonTrack = 0"
definition GlobalMuonTrackOtherMatch :: uint8_t where "GlobalMuonTrackOtherMatch = 1"
definition GlobalForwardTrack :: uint8_t where "GlobalForwardTrack = 2"
definition MuonStandaloneTrack :: uint8_t where "MuonStandaloneTrack = 3"
definition MCHStandaloneTrack :: uint8_t where "MCHStandaloneTrack = 4"

subsection \<open>Configurables\<close>

record config =
  fillQAHistograms :: bool
  minPt :: real
  maxPt :: real
  minEtaSA :: real
  maxEtaSA :: real
  minEtaGL :: real
  maxEtaGL :: real
  minRabsGL :: real
  minRabs :: real
  midRabs :: real
  maxRabs :: real
  maxDCAxy :: real
  maxPDCAforLargeR :: real
  maxPDCAforSmallR :: real
  maxMatchingChi2MCHMFT :: real
  maxChi2SA :: real
  maxChi2GL :: real
  refitGlobalMuon :: bool

text \<open>The default values of the configurables, as the source declares them.\<close>

definition default_config :: config where
  "default_config =
     \<lparr> fillQAHistograms = False,
       minPt = 0.2, maxPt = 10000000000,
       minEtaSA = - 4.0, maxEtaSA = - 2.5,
       minEtaGL = - 3.6, maxEtaGL = - 2.5,
       minRabsGL = 27.6, minRabs = 17.6, midRabs = 26.5, maxRabs = 89.5,
       maxDCAxy = 10000000000,
       maxPDCAforLargeR = 324, maxPDCAforSmallR = 594,
       maxMatchingChi2MCHMFT = 50,
       maxChi2SA = 1000000, maxChi2GL = 1000000,
       refitGlobalMuon = True \<rparr>"

subsection \<open>Floating-point values\<close>

text \<open>
  The result of an IEEE-754 operation: a finite number, an infinity or NaN. Dividing a
  non-zero finite number by zero gives an infinity and dividing zero by zero gives NaN;
  neither raises. The sign of a zero is not modelled: a zero divisor is taken as \<open>+0\<close>.
\<close>

datatype ieee = Fin real | PInf | NInf | NaN

text \<open>
  The comparisons \<^verbatim>\<open><\<close> and \<^verbatim>\<open><=\<close> of IEEE-754: false whenever an operand is NaN.
\<close>

fun ieee_less :: "ieee \<Rightarrow> ieee \<Rightarrow> bool" where
  "ieee_less NaN _ = False"
| "ieee_less _ NaN = False"
| "ieee_less (Fin a) (Fin b) = (a < b)"
| "ieee_less (Fin a) PInf = True"
| "ieee_less (Fin a) NInf = False"
| "ieee_less PInf _ = False"
| "ieee_less NInf (Fin b) = True"
| "ieee_less NInf PInf = True"
| "ieee_less NInf NInf = False"

fun ieee_le :: "ieee \<Rightarrow> ieee \<Rightarrow> bool" where
  "ieee_le NaN _ = False"
| "ieee_le _ NaN = False"
| "ieee_le (Fin a) (Fin b) = (a \<le> b)"
| "ieee_le (Fin a) PInf = True"
| "ieee_le (Fin a) NInf = False"
| "ieee_le PInf PInf = True"
| "ieee_le PInf (Fin b) = False"
| "ieee_le PInf NInf = False"
| "ieee_le NInf _ = True"

fun ieee_div :: "ieee \<Rightarrow> ieee \<Rightarrow> ieee" where
  "ieee_div NaN _ = NaN"
| "ieee_div _ NaN = NaN"
| "ieee_div (Fin a) (Fin b) =
     (if b \<noteq> 0 then Fin (a / b)
      else if a = 0 then NaN else if 0 < a then PInf else NInf)"
| "ieee_div (Fin a) PInf = Fin 0"
| "ieee_div (Fin a) NInf = Fin 0"
| "ieee_div PInf (Fin b) = (if b < 0 then NInf else PInf)"
| "ieee_div NInf (Fin b) = (if b < 0 then PInf else NInf)"
| "ieee_div PInf PInf = NaN"
| "ieee_div PInf NInf = NaN"
| "ieee_div NInf PInf = NaN"
| "ieee_div NInf NInf = NaN"

fun ieee_mul :: "ieee \<Rightarrow> ieee \<Rightarrow> ieee" where
  "ieee_mul NaN _ = NaN"
| "ieee_mul _ NaN = NaN"
| "ieee_mul (Fin a) (Fin b) = Fin (a * b)"
| "ieee_mul (Fin a) PInf = (if a = 0 then NaN else if 0 < a then PInf else NInf)"
| "ieee_mul (Fin a) NInf = (if a = 0 then NaN else if 0 < a then NInf else PInf)"
| "ieee_mul PInf (Fin b) = (if b = 0 then NaN else if 0 < b then PInf else NInf)"
| "ieee_mul NInf (Fin b) = (if b = 0 then NaN else if 0 < b then NInf else PInf)"
| "ieee_mul PInf PInf = PInf"
| "ieee_mul PInf NInf = NInf"
| "ieee_mul NInf PInf = NInf"
| "ieee_mul NInf NInf = PInf"

fun ieee_fabs :: "ieee \<Rightarrow> ieee" where
  "ieee_fabs (Fin a) = Fin \<bar>a\<bar>"
| "ieee_fabs PInf = PInf"
| "ieee_fabs NInf = PInf"
| "ieee_fabs NaN = NaN"

fun ieee_sqrt :: "ieee \<Rightarrow> ieee" where
  "ieee_sqrt (Fin a) = (if a < 0 then NaN else Fin (sqrt a))"
| "ieee_sqrt PInf = PInf"
| "ieee_sqrt NInf = NaN"
| "ieee_sqrt NaN = NaN"

subsection \<open>The acceptance predicate\<close>

text \<open>
  \<^verbatim>\<open>isSelected\<close>, with its \<^verbatim>\<open>float\<close> arguments as \<open>ieee\<close> values. The thresholds are
  the configurables, finite numbers.
\<close>

definition isSelected ::
  "config \<Rightarrow> ieee \<Rightarrow> ieee \<Rightarrow> ieee \<Rightarrow> ieee \<Rightarrow> ieee \<Rightarrow> uint8_t \<Rightarrow> ieee \<Rightarrow> bool" where
  "isSelected cfg pt eta rAtAbsorberEnd pDCA chi2_per_ndf trackType dcaXY =
     (if ieee_less pt (Fin (minPt cfg)) \<or> ieee_less (Fin (maxPt cfg)) pt then False
      else if ieee_less rAtAbsorberEnd (Fin (minRabs cfg))
              \<or> ieee_less (Fin (maxRabs cfg)) rAtAbsorberEnd then False
      else if (if ieee_less rAtAbsorberEnd (Fin (midRabs cfg))
               then ieee_less (Fin (maxPDCAforSmallR cfg)) pDCA
               else ieee_less (Fin (maxPDCAforLargeR cfg)) pDCA) then False
      else if trackType = GlobalMuonTrack then
        (if ieee_less eta (Fin (minEtaGL cfg)) \<or> ieee_less (Fin (maxEtaGL cfg)) eta then False
         else if ieee_less (Fin (maxDCAxy cfg)) dcaXY then False
         else if ieee_less (Fin (maxChi2GL cfg)) chi2_per_ndf then False
         else if ieee_less rAtAbsorberEnd (Fin (minRabsGL cfg))
                 \<or> ieee_less (Fin (maxRabs cfg)) rAtAbsorberEnd then False
         else True)
      else if trackType = MuonStandaloneTrack then
        (if ieee_less eta (Fin (minEtaSA cfg)) \<or> ieee_less (Fin (maxEtaSA cfg)) eta then False
         else if ieee_less (Fin (maxChi2SA cfg)) chi2_per_ndf then False
         else True)
      else False)"

subsection \<open>Input tables\<close>

record Collision =
  collision_globalIndex :: int
  posX :: real
  posY :: real
  posZ :: real

text \<open>A row of \<^verbatim>\<open>MyFwdTracks\<close>, with the columns the source reads.\<close>

record FwdTrack =
  globalIndex :: int
  collisionId :: int
  trackType :: uint8_t
  p :: real
  chi2 :: real
  chi2MatchMCHMID :: real
  chi2MatchMCHMFT :: real
  rAtAbsorberEnd :: real
  nClusters :: int
  sign :: int
  matchMFTTrackId :: int
  matchMCHTrackId :: int
  mchBitMap :: "16 word"
  midBitMap :: "8 word"
  midBoards :: "32 word"

text \<open>A row of \<^verbatim>\<open>aod::MFTTracks\<close>.\<close>

record MFTTrack =
  mft_nClusters :: int
  mft_mftClusterSizesAndTrackFlags :: "64 word"
  mft_chi2 :: real
  mft_eta :: real
  mft_phi :: real

text \<open>
  \<^verbatim>\<open>o2::dataformats::GlobalFwdTrack\<close>, the propagated state, with the getters the
  source calls; \<open>getCovariances\<close> is the 5x5 matrix, read by row and column.
\<close>

record GlobalFwdTrack =
  getX :: real
  getY :: real
  getPt :: real
  getEta :: real
  getPhi :: real
  getP :: real
  getSigma2X :: real
  getSigma2Y :: real
  getSigmaXY :: real
  getCovariances :: "nat \<Rightarrow> nat \<Rightarrow> real"

datatype propagationPoint = kToVertex | kToDCA | kToRabs

text \<open>
  What the source takes from outside this file: the propagation engine
  \<^verbatim>\<open>propagateMuon\<close> of \<^verbatim>\<open>fwdtrackUtilities.h\<close>, the two index dereferences of
  the framework, and \<^verbatim>\<open>o2::math_utils::bringTo02Pi\<close>. They are parameters of the
  model: every theorem holds for all of them.
\<close>

record collaborators =
  propagateMuon :: "FwdTrack \<Rightarrow> Collision \<Rightarrow> propagationPoint \<Rightarrow> GlobalFwdTrack"
  matchMCHTrack_as :: "FwdTrack \<Rightarrow> FwdTrack"
  matchMFTTrack_as :: "FwdTrack \<Rightarrow> MFTTrack"
  bringTo02Pi :: "real \<Rightarrow> real"

subsection \<open>Output tables\<close>

text \<open>A row of \<^verbatim>\<open>aod::EMPrimaryMuons\<close>, in the order of the arguments of the fill.\<close>

record EMPrimaryMuon =
  em_collisionId :: int
  em_fwdtrackId :: int
  em_mfttrackId :: int
  em_mchtrackId :: int
  em_trackType :: uint8_t
  em_pt :: real
  em_eta :: real
  em_phi :: real
  em_sign :: int
  em_dcaX :: real
  em_dcaY :: real
  em_cXXatDCA :: real
  em_cYYatDCA :: real
  em_cXYatDCA :: real
  em_ptMatchedMCHMID :: real
  em_etaMatchedMCHMID :: real
  em_phiMatchedMCHMID :: real
  em_nClusters :: int
  em_pDCA :: real
  em_rAtAbsorberEnd :: real
  em_chi2 :: real
  em_chi2MatchMCHMID :: real
  em_chi2MatchMCHMFT :: real
  em_mchBitMap :: "16 word"
  em_midBitMap :: "8 word"
  em_midBoards :: "32 word"
  em_mftClusterSizesAndTrackFlags :: "64 word"
  em_chi2mft :: real
  em_isAssociatedToMPC :: bool
  em_isAmbiguous :: bool

text \<open>A row of \<^verbatim>\<open>aod::EMPrimaryMuonsCov\<close>: the 15 entries, in the order of the fill.\<close>

type_synonym EMPrimaryMuonCov = "real list"

text \<open>
  The state the candidate builder writes: the two tables, the calls made to the
  propagation engine (track index and target surface, in order), and the fills of the
  two QA histograms that take the DCA significance and the DCA resolution. The other
  histograms only repeat values of the row and are left out, as is the registry's
  binning.
\<close>

record tables =
  emprimarymuons :: "EMPrimaryMuon list"
  emprimarymuonscov :: "EMPrimaryMuonCov list"
  propagateMuon_calls :: "(int \<times> propagationPoint) list"
  fRegistry :: "(string \<times> ieee list) list"

definition call_propagateMuon ::
  "collaborators \<Rightarrow> FwdTrack \<Rightarrow> Collision \<Rightarrow> propagationPoint \<Rightarrow> tables
     \<Rightarrow> GlobalFwdTrack \<times> tables" where
  "call_propagateMuon env track collision point s =
     (propagateMuon env track collision point,
      s\<lparr>propagateMuon_calls := propagateMuon_calls s @ [(globalIndex track, point)]\<rparr>)"

definition fwdcov_row :: "GlobalFwdTrack \<Rightarrow> EMPrimaryMuonCov" where
  "fwdcov_row t =
     (let fwdcov = getCovariances t in
      [fwdcov 0 0,
       fwdcov 0 1, fwdcov 1 1,
       fwdcov 2 0, fwdcov 2 1, fwdcov 2 2,
       fwdcov 3 0, fwdcov 3 1, fwdcov 3 2, fwdcov 3 3,
       fwdcov 4 0, fwdcov 4 1, fwdcov 4 2, fwdcov 4 3, fwdcov 4 4])"

subsection \<open>The candidate builder\<close>

text \<open>
  \<^verbatim>\<open>fillFwdTrackTable(collision, fwdtrack, isAmbiguous)\<close> is one long function. The
  model keeps its order and cuts it into its phases, each a definition of its own; the
  last definition, \<open>fillFwdTrackTable\<close>, is the function with its \<^verbatim>\<open>return\<close>s.
\<close>

text \<open>
  The quantities at the DCA plane (lines 227-244): covariance terms, DCA components and
  magnitude, and the significance with its sentinel. The divisions by \<open>det\<close> and by
  \<open>dcaXYinSigma\<close> have no guard against zero, so they are carried out in \<open>ieee\<close>.
  Here \<open>det\<close> is the exact determinant. The source computes it in binary32, where a
  determinant within rounding of zero can come out as zero or with the other sign, so
  the branch taken is the source's only where rounding leaves the sign of \<open>det\<close> as it
  is; an exact determinant of zero is computed as zero.
\<close>

record dca =
  cXXatDCA :: real
  cYYatDCA :: real
  cXYatDCA :: real
  dcaX :: real
  dcaY :: real
  dcaXY :: real
  det :: real
  dcaXYinSigma :: ieee
  sigma_dcaXY :: ieee

definition dcaQuantities :: "GlobalFwdTrack \<Rightarrow> Collision \<Rightarrow> dca" where
  "dcaQuantities propmuonAtDCA collision =
     (let cXX = getSigma2X propmuonAtDCA;
          cYY = getSigma2Y propmuonAtDCA;
          cXY = getSigmaXY propmuonAtDCA;
          dX = getX propmuonAtDCA - posX collision;
          dY = getY propmuonAtDCA - posY collision;
          dXY = sqrt (dX * dX + dY * dY);
          determinant = cXX * cYY - cXY * cXY;
          inSigma =
            (if determinant < 0 then Fin 999
             else ieee_sqrt (ieee_fabs (ieee_div (ieee_div
                    (Fin (dX * dX * cYY + dY * dY * cXX - 2 * dX * dY * cXY))
                    (Fin determinant)) (Fin 2))))
      in \<lparr> cXXatDCA = cXX, cYYatDCA = cYY, cXYatDCA = cXY,
           dcaX = dX, dcaY = dY, dcaXY = dXY, det = determinant,
           dcaXYinSigma = inSigma,
           sigma_dcaXY = ieee_div (Fin dXY) inSigma \<rparr>)"

text \<open>
  The local variables that the category branch may overwrite and that the code after
  the branch reads, with their values before the branch (lines 222-225, 235, 246-258).
\<close>

record locals =
  l_pt :: real
  l_eta :: real
  l_phi :: real
  l_rAtAbsorberEnd :: real
  l_pDCA :: real
  l_ptMatchedMCHMID :: real
  l_etaMatchedMCHMID :: real
  l_phiMatchedMCHMID :: real
  l_chi2mft :: real
  l_mftClusterSizesAndTrackFlags :: "64 word"
  l_ndf_mchmft :: int

definition initialLocals :: "collaborators \<Rightarrow> FwdTrack \<Rightarrow> GlobalFwdTrack \<Rightarrow> dca \<Rightarrow> locals" where
  "initialLocals env fwdtrack propmuonAtPV d =
     \<lparr> l_pt = getPt propmuonAtPV,
       l_eta = getEta propmuonAtPV,
       l_phi = bringTo02Pi env (getPhi propmuonAtPV),
       l_rAtAbsorberEnd = rAtAbsorberEnd fwdtrack,
       l_pDCA = p fwdtrack * dcaXY d,
       l_ptMatchedMCHMID = getPt propmuonAtPV,
       l_etaMatchedMCHMID = getEta propmuonAtPV,
       l_phiMatchedMCHMID = bringTo02Pi env (getPhi propmuonAtPV),
       l_chi2mft = 0,
       l_mftClusterSizesAndTrackFlags = 0,
       l_ndf_mchmft = 1 \<rparr>"

text \<open>
  The branch for a global muon (lines 261-306). \<open>None\<close> is a \<^verbatim>\<open>return\<close>. The \<^verbatim>\<open>int\<close>
  \<open>ndf_mchmft\<close> is \<open>2 * (nClusters + nClustersMFT) - 5\<close>, an odd number, so dividing
  \<open>chi2\<close> by it never has a zero divisor.
\<close>

definition globalMuonBranch ::
  "config \<Rightarrow> collaborators \<Rightarrow> Collision \<Rightarrow> FwdTrack \<Rightarrow> dca \<Rightarrow> locals \<Rightarrow> tables
     \<Rightarrow> locals option \<times> tables" where
  "globalMuonBranch cfg env collision fwdtrack d l0 s =
     (if rAtAbsorberEnd fwdtrack < minRabsGL cfg \<or> maxRabs cfg < rAtAbsorberEnd fwdtrack
      then (None, s)
      else if maxDCAxy cfg < dcaXY d then (None, s)
      else
       let mchtrack = matchMCHTrack_as env fwdtrack;
           mfttrack = matchMFTTrack_as env fwdtrack;
           nClustersMFT = mft_nClusters mfttrack;
           ndf_mchmft = 2 * (nClusters mchtrack + nClustersMFT) - 5
       in
        if maxChi2GL cfg < chi2 fwdtrack / real_of_int ndf_mchmft then (None, s)
        else
         let (propmuonAtPV_Matched, s1) = call_propagateMuon env mchtrack collision kToVertex s;
             (propmuonAtDCA_Matched, s2) = call_propagateMuon env mchtrack collision kToDCA s1;
             dcaX_Matched = getX propmuonAtDCA_Matched - posX collision;
             dcaY_Matched = getY propmuonAtDCA_Matched - posY collision;
             dcaXY_Matched = sqrt (dcaX_Matched * dcaX_Matched + dcaY_Matched * dcaY_Matched);
             l1 = l0 \<lparr> l_mftClusterSizesAndTrackFlags := mft_mftClusterSizesAndTrackFlags mfttrack,
                       l_ndf_mchmft := ndf_mchmft,
                       l_chi2mft := mft_chi2 mfttrack,
                       l_ptMatchedMCHMID := getPt propmuonAtPV_Matched,
                       l_etaMatchedMCHMID := getEta propmuonAtPV_Matched,
                       l_phiMatchedMCHMID := bringTo02Pi env (getPhi propmuonAtPV_Matched),
                       l_pDCA := p mchtrack * dcaXY_Matched \<rparr>
         in
          if refitGlobalMuon cfg then
            (Some (l1 \<lparr> l_eta := mft_eta mfttrack,
                        l_phi := bringTo02Pi env (mft_phi mfttrack),
                        l_pt := getP propmuonAtPV_Matched
                                * sin (2 * arctan (exp (- mft_eta mfttrack))) \<rparr>), s2)
          else (Some l1, s2))"

text \<open>The branch for a standalone muon (lines 308-311).\<close>

definition standaloneMuonBranch ::
  "collaborators \<Rightarrow> Collision \<Rightarrow> FwdTrack \<Rightarrow> locals \<Rightarrow> tables \<Rightarrow> locals option \<times> tables" where
  "standaloneMuonBranch env collision fwdtrack l0 s =
     (let (propmuonAtRabs, s1) = call_propagateMuon env fwdtrack collision kToRabs s;
          xAbs = getX propmuonAtRabs;
          yAbs = getY propmuonAtRabs
      in (Some (l0 \<lparr> l_rAtAbsorberEnd := sqrt (xAbs * xAbs + yAbs * yAbs) \<rparr>), s1))"

text \<open>The row written to \<^verbatim>\<open>emprimarymuons\<close> (lines 325-332).\<close>

definition candidateRow :: "Collision \<Rightarrow> FwdTrack \<Rightarrow> bool \<Rightarrow> dca \<Rightarrow> locals \<Rightarrow> EMPrimaryMuon" where
  "candidateRow collision fwdtrack isAmbiguous d l =
     (let isAssociatedToMPC = (collisionId fwdtrack = collision_globalIndex collision) in
      \<lparr> em_collisionId = collision_globalIndex collision,
        em_fwdtrackId = globalIndex fwdtrack,
        em_mfttrackId = matchMFTTrackId fwdtrack,
        em_mchtrackId = matchMCHTrackId fwdtrack,
        em_trackType = trackType fwdtrack,
        em_pt = l_pt l, em_eta = l_eta l, em_phi = l_phi l,
        em_sign = sign fwdtrack,
        em_dcaX = dcaX d, em_dcaY = dcaY d,
        em_cXXatDCA = cXXatDCA d, em_cYYatDCA = cYYatDCA d, em_cXYatDCA = cXYatDCA d,
        em_ptMatchedMCHMID = l_ptMatchedMCHMID l,
        em_etaMatchedMCHMID = l_etaMatchedMCHMID l,
        em_phiMatchedMCHMID = l_phiMatchedMCHMID l,
        em_nClusters = nClusters fwdtrack,
        em_pDCA = l_pDCA l,
        em_rAtAbsorberEnd = l_rAtAbsorberEnd l,
        em_chi2 = chi2 fwdtrack,
        em_chi2MatchMCHMID = chi2MatchMCHMID fwdtrack,
        em_chi2MatchMCHMFT = chi2MatchMCHMFT fwdtrack,
        em_mchBitMap = mchBitMap fwdtrack,
        em_midBitMap = midBitMap fwdtrack,
        em_midBoards = midBoards fwdtrack,
        em_mftClusterSizesAndTrackFlags = l_mftClusterSizesAndTrackFlags l,
        em_chi2mft = l_chi2mft l,
        em_isAssociatedToMPC = isAssociatedToMPC,
        em_isAmbiguous = isAmbiguous \<rparr>)"

text \<open>
  The QA fills that take the significance and the resolution (lines 350-399, of which
  only \<^verbatim>\<open>hDCAxyinSigma\<close> and \<^verbatim>\<open>hDCAxyResolutionvsPt\<close> are kept).
\<close>

definition fillQA :: "config \<Rightarrow> FwdTrack \<Rightarrow> dca \<Rightarrow> locals \<Rightarrow> tables \<Rightarrow> tables" where
  "fillQA cfg fwdtrack d l s =
     (if fillQAHistograms cfg then
        (if trackType fwdtrack = GlobalMuonTrack then
           s \<lparr> fRegistry := fRegistry s @
                 [(''MFTMCHMID/hDCAxyinSigma'', [dcaXYinSigma d]),
                  (''MFTMCHMID/hDCAxyResolutionvsPt'',
                   [Fin (l_pt l), ieee_mul (sigma_dcaXY d) (Fin 10000)])] \<rparr>
         else if trackType fwdtrack = MuonStandaloneTrack then
           s \<lparr> fRegistry := fRegistry s @
                 [(''MCHMID/hDCAxyinSigma'', [dcaXYinSigma d]),
                  (''MCHMID/hDCAxyResolutionvsPt'',
                   [Fin (l_pt l), ieee_mul (sigma_dcaXY d) (Fin 10000)])] \<rparr>
         else s)
      else s)"

text \<open>
  The code after the branch (lines 316-399): the acceptance predicate, then one row in
  each table, then the QA fills. The deltas \<open>dpt\<close>, \<open>deta\<close>, \<open>dphi\<close> only feed
  histograms that are left out.
\<close>

definition selectAndFill ::
  "config \<Rightarrow> Collision \<Rightarrow> FwdTrack \<Rightarrow> bool \<Rightarrow> GlobalFwdTrack \<Rightarrow> dca \<Rightarrow> locals \<Rightarrow> tables
     \<Rightarrow> tables" where
  "selectAndFill cfg collision fwdtrack isAmbiguous propmuonAtPV d l s =
     (if \<not> isSelected cfg (Fin (l_pt l)) (Fin (l_eta l)) (Fin (l_rAtAbsorberEnd l))
            (Fin (l_pDCA l)) (Fin (chi2 fwdtrack / real_of_int (l_ndf_mchmft l)))
            (trackType fwdtrack) (Fin (dcaXY d))
      then s
      else
       let s1 = s \<lparr> emprimarymuons := emprimarymuons s @
                      [candidateRow collision fwdtrack isAmbiguous d l] \<rparr>;
           s2 = s1 \<lparr> emprimarymuonscov := emprimarymuonscov s1 @ [fwdcov_row propmuonAtPV] \<rparr>
       in fillQA cfg fwdtrack d l s2)"

text \<open>The function. The first three tests are its early returns (lines 209-219).\<close>

definition fillFwdTrackTable ::
  "config \<Rightarrow> collaborators \<Rightarrow> Collision \<Rightarrow> FwdTrack \<Rightarrow> bool \<Rightarrow> tables \<Rightarrow> tables" where
  "fillFwdTrackTable cfg env collision fwdtrack isAmbiguous s0 =
    (if trackType fwdtrack = GlobalMuonTrack
        \<and> chi2MatchMCHMFT fwdtrack > maxMatchingChi2MCHMFT cfg then s0
     else if chi2MatchMCHMID fwdtrack < 0 then s0
     else if chi2 fwdtrack < 0 then s0
     else
      let (propmuonAtPV, s1) = call_propagateMuon env fwdtrack collision kToVertex s0;
          (propmuonAtDCA, s2) = call_propagateMuon env fwdtrack collision kToDCA s1;
          d = dcaQuantities propmuonAtDCA collision;
          l0 = initialLocals env fwdtrack propmuonAtPV d;
          (branch, s3) =
            (if trackType fwdtrack = GlobalMuonTrack
               then globalMuonBranch cfg env collision fwdtrack d l0 s2
             else if trackType fwdtrack = MuonStandaloneTrack
               then standaloneMuonBranch env collision fwdtrack l0 s2
             else (None, s2))
      in case branch of
           None \<Rightarrow> s3
         | Some l \<Rightarrow> selectAndFill cfg collision fwdtrack isAmbiguous propmuonAtPV d l s3)"

text \<open>
  The builder with each of the three early exits of the global-muon branch (absorber
  radius, DCA, chi2 per degree of freedom) present only when its flag is set; everything
  else is the text of \<open>globalMuonBranch\<close> and of \<open>fillFwdTrackTable\<close>. With a flag
  cleared the cut is left to \<open>isSelected\<close> alone. This is the builder the specification
  compares with: it says that the early exits are there for cost only.
\<close>

definition globalMuonBranch_exits ::
  "bool \<Rightarrow> bool \<Rightarrow> bool \<Rightarrow> config \<Rightarrow> collaborators \<Rightarrow> Collision \<Rightarrow> FwdTrack \<Rightarrow> dca \<Rightarrow> locals
     \<Rightarrow> tables \<Rightarrow> locals option \<times> tables" where
  "globalMuonBranch_exits rabsExit dcaExit chi2Exit cfg env collision fwdtrack d l0 s =
     (if rabsExit \<and> (rAtAbsorberEnd fwdtrack < minRabsGL cfg
                      \<or> maxRabs cfg < rAtAbsorberEnd fwdtrack)
      then (None, s)
      else if dcaExit \<and> maxDCAxy cfg < dcaXY d then (None, s)
      else
       let mchtrack = matchMCHTrack_as env fwdtrack;
           mfttrack = matchMFTTrack_as env fwdtrack;
           nClustersMFT = mft_nClusters mfttrack;
           ndf_mchmft = 2 * (nClusters mchtrack + nClustersMFT) - 5
       in
        if chi2Exit \<and> maxChi2GL cfg < chi2 fwdtrack / real_of_int ndf_mchmft then (None, s)
        else
         let (propmuonAtPV_Matched, s1) = call_propagateMuon env mchtrack collision kToVertex s;
             (propmuonAtDCA_Matched, s2) = call_propagateMuon env mchtrack collision kToDCA s1;
             dcaX_Matched = getX propmuonAtDCA_Matched - posX collision;
             dcaY_Matched = getY propmuonAtDCA_Matched - posY collision;
             dcaXY_Matched = sqrt (dcaX_Matched * dcaX_Matched + dcaY_Matched * dcaY_Matched);
             l1 = l0 \<lparr> l_mftClusterSizesAndTrackFlags := mft_mftClusterSizesAndTrackFlags mfttrack,
                       l_ndf_mchmft := ndf_mchmft,
                       l_chi2mft := mft_chi2 mfttrack,
                       l_ptMatchedMCHMID := getPt propmuonAtPV_Matched,
                       l_etaMatchedMCHMID := getEta propmuonAtPV_Matched,
                       l_phiMatchedMCHMID := bringTo02Pi env (getPhi propmuonAtPV_Matched),
                       l_pDCA := p mchtrack * dcaXY_Matched \<rparr>
         in
          if refitGlobalMuon cfg then
            (Some (l1 \<lparr> l_eta := mft_eta mfttrack,
                        l_phi := bringTo02Pi env (mft_phi mfttrack),
                        l_pt := getP propmuonAtPV_Matched
                                * sin (2 * arctan (exp (- mft_eta mfttrack))) \<rparr>), s2)
          else (Some l1, s2))"

definition fillFwdTrackTable_exits ::
  "bool \<Rightarrow> bool \<Rightarrow> bool \<Rightarrow> config \<Rightarrow> collaborators \<Rightarrow> Collision \<Rightarrow> FwdTrack \<Rightarrow> bool
     \<Rightarrow> tables \<Rightarrow> tables" where
  "fillFwdTrackTable_exits rabsExit dcaExit chi2Exit cfg env collision fwdtrack isAmbiguous s0 =
    (if trackType fwdtrack = GlobalMuonTrack
        \<and> chi2MatchMCHMFT fwdtrack > maxMatchingChi2MCHMFT cfg then s0
     else if chi2MatchMCHMID fwdtrack < 0 then s0
     else if chi2 fwdtrack < 0 then s0
     else
      let (propmuonAtPV, s1) = call_propagateMuon env fwdtrack collision kToVertex s0;
          (propmuonAtDCA, s2) = call_propagateMuon env fwdtrack collision kToDCA s1;
          d = dcaQuantities propmuonAtDCA collision;
          l0 = initialLocals env fwdtrack propmuonAtPV d;
          (branch, s3) =
            (if trackType fwdtrack = GlobalMuonTrack
               then globalMuonBranch_exits rabsExit dcaExit chi2Exit
                      cfg env collision fwdtrack d l0 s2
             else if trackType fwdtrack = MuonStandaloneTrack
               then standaloneMuonBranch env collision fwdtrack l0 s2
             else (None, s2))
      in case branch of
           None \<Rightarrow> s3
         | Some l \<Rightarrow> selectAndFill cfg collision fwdtrack isAmbiguous propmuonAtPV d l s3)"

text \<open>
  The builder with the three early exits in the opposite order (chi2 per degree of
  freedom, then DCA, then absorber radius), otherwise the text of \<open>globalMuonBranch\<close>
  and of \<open>fillFwdTrackTable\<close>.
\<close>

definition globalMuonBranch_reordered ::
  "config \<Rightarrow> collaborators \<Rightarrow> Collision \<Rightarrow> FwdTrack \<Rightarrow> dca \<Rightarrow> locals \<Rightarrow> tables
     \<Rightarrow> locals option \<times> tables" where
  "globalMuonBranch_reordered cfg env collision fwdtrack d l0 s =
     (let mchtrack = matchMCHTrack_as env fwdtrack;
          mfttrack = matchMFTTrack_as env fwdtrack;
          nClustersMFT = mft_nClusters mfttrack;
          ndf_mchmft = 2 * (nClusters mchtrack + nClustersMFT) - 5
      in
       if maxChi2GL cfg < chi2 fwdtrack / real_of_int ndf_mchmft then (None, s)
       else if maxDCAxy cfg < dcaXY d then (None, s)
       else if rAtAbsorberEnd fwdtrack < minRabsGL cfg \<or> maxRabs cfg < rAtAbsorberEnd fwdtrack
         then (None, s)
       else
        let (propmuonAtPV_Matched, s1) = call_propagateMuon env mchtrack collision kToVertex s;
            (propmuonAtDCA_Matched, s2) = call_propagateMuon env mchtrack collision kToDCA s1;
            dcaX_Matched = getX propmuonAtDCA_Matched - posX collision;
            dcaY_Matched = getY propmuonAtDCA_Matched - posY collision;
            dcaXY_Matched = sqrt (dcaX_Matched * dcaX_Matched + dcaY_Matched * dcaY_Matched);
            l1 = l0 \<lparr> l_mftClusterSizesAndTrackFlags := mft_mftClusterSizesAndTrackFlags mfttrack,
                      l_ndf_mchmft := ndf_mchmft,
                      l_chi2mft := mft_chi2 mfttrack,
                      l_ptMatchedMCHMID := getPt propmuonAtPV_Matched,
                      l_etaMatchedMCHMID := getEta propmuonAtPV_Matched,
                      l_phiMatchedMCHMID := bringTo02Pi env (getPhi propmuonAtPV_Matched),
                      l_pDCA := p mchtrack * dcaXY_Matched \<rparr>
        in
         if refitGlobalMuon cfg then
           (Some (l1 \<lparr> l_eta := mft_eta mfttrack,
                       l_phi := bringTo02Pi env (mft_phi mfttrack),
                       l_pt := getP propmuonAtPV_Matched
                               * sin (2 * arctan (exp (- mft_eta mfttrack))) \<rparr>), s2)
         else (Some l1, s2))"

definition fillFwdTrackTable_reordered ::
  "config \<Rightarrow> collaborators \<Rightarrow> Collision \<Rightarrow> FwdTrack \<Rightarrow> bool \<Rightarrow> tables \<Rightarrow> tables" where
  "fillFwdTrackTable_reordered cfg env collision fwdtrack isAmbiguous s0 =
    (if trackType fwdtrack = GlobalMuonTrack
        \<and> chi2MatchMCHMFT fwdtrack > maxMatchingChi2MCHMFT cfg then s0
     else if chi2MatchMCHMID fwdtrack < 0 then s0
     else if chi2 fwdtrack < 0 then s0
     else
      let (propmuonAtPV, s1) = call_propagateMuon env fwdtrack collision kToVertex s0;
          (propmuonAtDCA, s2) = call_propagateMuon env fwdtrack collision kToDCA s1;
          d = dcaQuantities propmuonAtDCA collision;
          l0 = initialLocals env fwdtrack propmuonAtPV d;
          (branch, s3) =
            (if trackType fwdtrack = GlobalMuonTrack
               then globalMuonBranch_reordered cfg env collision fwdtrack d l0 s2
             else if trackType fwdtrack = MuonStandaloneTrack
               then standaloneMuonBranch env collision fwdtrack l0 s2
             else (None, s2))
      in case branch of
           None \<Rightarrow> s3
         | Some l \<Rightarrow> selectAndFill cfg collision fwdtrack isAmbiguous propmuonAtPV d l s3)"

subsection \<open>The cross-reference producers\<close>

text \<open>
  The candidate table as the two producers see it: each row with its global index, which
  is its position in the table. \<^verbatim>\<open>sliceBy\<close> with a \<^verbatim>\<open>PresliceUnsorted\<close> on an index
  column gives the rows whose column has the value asked for, in table order; the
  producers ask for the track index of a candidate and for the MFT index of a global
  muon, which are valid (non-negative) indices. The lists hold the global indices as
  \<^verbatim>\<open>int\<close>; a table has fewer than \<open>2\<^sup>3\<^sup>1\<close> rows.
\<close>

definition sliceBy ::
  "(EMPrimaryMuon \<Rightarrow> int) \<Rightarrow> (nat \<times> EMPrimaryMuon) list \<Rightarrow> int \<Rightarrow> (nat \<times> EMPrimaryMuon) list" where
  "sliceBy column rows v = filter (\<lambda>(j, row). column row = v) rows"

text \<open>
  \<^verbatim>\<open>associateAmbiguousMuon::process\<close>: the inner loop over the slice, which appends to
  the member vector \<^verbatim>\<open>ambmuon_self_Ids\<close>, and the loop over the muons, which fills one
  row of \<^verbatim>\<open>em_amb_muon_ids\<close> per muon and clears the vector.
\<close>

fun associateAmbiguousMuon_inner ::
  "nat \<Rightarrow> (nat \<times> EMPrimaryMuon) list \<Rightarrow> int list \<Rightarrow> int list" where
  "associateAmbiguousMuon_inner i [] ambmuon_self_Ids = ambmuon_self_Ids"
| "associateAmbiguousMuon_inner i ((j, amb_muon) # rest) ambmuon_self_Ids =
     (if j = i then associateAmbiguousMuon_inner i rest ambmuon_self_Ids
      else associateAmbiguousMuon_inner i rest (ambmuon_self_Ids @ [int j]))"

fun associateAmbiguousMuon_loop ::
  "(nat \<times> EMPrimaryMuon) list \<Rightarrow> (nat \<times> EMPrimaryMuon) list
     \<Rightarrow> int list \<times> int list list \<Rightarrow> int list \<times> int list list" where
  "associateAmbiguousMuon_loop muons [] st = st"
| "associateAmbiguousMuon_loop muons ((i, muon) # rest) (ambmuon_self_Ids, em_amb_muon_ids) =
     (let muons_with_same_trackId = sliceBy em_fwdtrackId muons (em_fwdtrackId muon);
          ids = associateAmbiguousMuon_inner i muons_with_same_trackId ambmuon_self_Ids
      in associateAmbiguousMuon_loop muons rest ([], em_amb_muon_ids @ [ids]))"

definition associateAmbiguousMuon_process :: "EMPrimaryMuon list \<Rightarrow> int list list" where
  "associateAmbiguousMuon_process muons =
     snd (associateAmbiguousMuon_loop (enumerate 0 muons) (enumerate 0 muons) ([], []))"

text \<open>
  \<^verbatim>\<open>associateSameMFT::process\<close>, in the same shape; the member vector is \<^verbatim>\<open>self_Ids\<close>
  and the table is \<^verbatim>\<open>em_same_mft_ids\<close>.
\<close>

fun associateSameMFT_inner ::
  "nat \<Rightarrow> EMPrimaryMuon \<Rightarrow> (nat \<times> EMPrimaryMuon) list \<Rightarrow> int list \<Rightarrow> int list" where
  "associateSameMFT_inner i muon [] self_Ids = self_Ids"
| "associateSameMFT_inner i muon ((j, global_muon) # rest) self_Ids =
     (if j = i then associateSameMFT_inner i muon rest self_Ids
      else if em_collisionId global_muon = em_collisionId muon
        then associateSameMFT_inner i muon rest (self_Ids @ [int j])
      else associateSameMFT_inner i muon rest self_Ids)"

fun associateSameMFT_loop ::
  "(nat \<times> EMPrimaryMuon) list \<Rightarrow> (nat \<times> EMPrimaryMuon) list
     \<Rightarrow> int list \<times> int list list \<Rightarrow> int list \<times> int list list" where
  "associateSameMFT_loop muons [] st = st"
| "associateSameMFT_loop muons ((i, muon) # rest) (self_Ids, em_same_mft_ids) =
     (if em_trackType muon = GlobalMuonTrack then
        (let muons_with_same_mfttrackId = sliceBy em_mfttrackId muons (em_mfttrackId muon);
             ids = associateSameMFT_inner i muon muons_with_same_mfttrackId self_Ids
         in associateSameMFT_loop muons rest ([], em_same_mft_ids @ [ids]))
      else associateSameMFT_loop muons rest (self_Ids, em_same_mft_ids @ [ [] ]))"

definition associateSameMFT_process :: "EMPrimaryMuon list \<Rightarrow> int list list" where
  "associateSameMFT_process muons =
     snd (associateSameMFT_loop (enumerate 0 muons) (enumerate 0 muons) ([], []))"

subsection \<open>Example inputs\<close>

text \<open>
  A collision at the origin, a global muon (track 7) matched to the MCH-MID track 3 and
  to an MFT track, and collaborators that propagate the two tracks to fixed states. The
  global muon reaches the DCA plane at distance 1 from the vertex with a covariance of
  negative determinant; its MCH-MID track reaches it at distance 5. The 5x5 covariance
  of a propagated state has different entries at different places, and differs between
  the two tracks. \<open>bringTo02Pi\<close> is
  the function of \<^verbatim>\<open>o2::math_utils\<close>: it adds \<open>2 pi\<close> to a negative angle and takes
  \<open>2 pi\<close> from an angle above \<open>2 pi\<close>.
\<close>

definition example_collision :: Collision where
  "example_collision = \<lparr> collision_globalIndex = 0, posX = 0, posY = 0, posZ = 0 \<rparr>"

definition example_global :: FwdTrack where
  "example_global =
     \<lparr> globalIndex = 7, collisionId = 0, trackType = GlobalMuonTrack, p = 20,
       chi2 = 30, chi2MatchMCHMID = 1, chi2MatchMCHMFT = 20, rAtAbsorberEnd = 30,
       nClusters = 10, sign = 1, matchMFTTrackId = 5, matchMCHTrackId = 3,
       mchBitMap = 0, midBitMap = 0, midBoards = 0 \<rparr>"

definition example_standalone :: FwdTrack where
  "example_standalone =
     \<lparr> globalIndex = 3, collisionId = 0, trackType = MuonStandaloneTrack, p = 10,
       chi2 = 12, chi2MatchMCHMID = 1, chi2MatchMCHMFT = - 1, rAtAbsorberEnd = 0,
       nClusters = 10, sign = 1, matchMFTTrackId = - 1, matchMCHTrackId = - 1,
       mchBitMap = 0, midBitMap = 0, midBoards = 0 \<rparr>"

definition example_mft :: MFTTrack where
  "example_mft =
     \<lparr> mft_nClusters = 5, mft_mftClusterSizesAndTrackFlags = 0, mft_chi2 = 4,
       mft_eta = - 3, mft_phi = - 1 \<rparr>"

definition example_state ::
  "real \<Rightarrow> real \<Rightarrow> real \<Rightarrow> real \<Rightarrow> real \<Rightarrow> real \<Rightarrow> real \<Rightarrow> GlobalFwdTrack" where
  "example_state x y pt eta phi ptot cxy =
     \<lparr> getX = x, getY = y, getPt = pt, getEta = eta, getPhi = phi, getP = ptot,
       getSigma2X = 1, getSigma2Y = 1, getSigmaXY = cxy,
       getCovariances = (\<lambda>i j. ptot + real (10 * max i j + min i j)) \<rparr>"

definition example_env :: collaborators where
  "example_env =
     \<lparr> propagateMuon = (\<lambda>track collision point.
          if trackType track = GlobalMuonTrack then
            (case point of
               kToVertex \<Rightarrow> example_state 0 0 2 (- 3) 1 20 0
             | kToDCA \<Rightarrow> example_state 1 0 2 (- 3) 1 20 2
             | kToRabs \<Rightarrow> example_state 30 0 2 (- 3) 1 20 0)
          else
            (case point of
               kToVertex \<Rightarrow> example_state 0 0 1 (- 3) 1 10 0
             | kToDCA \<Rightarrow> example_state 3 4 1 (- 3) 1 10 0
             | kToRabs \<Rightarrow> example_state 30 40 1 (- 3) 1 10 0)),
       matchMCHTrack_as = (\<lambda>track. example_standalone),
       matchMFTTrack_as = (\<lambda>track. example_mft),
       bringTo02Pi = (\<lambda>phi. if phi < 0 then phi + 2 * pi
                             else if 2 * pi < phi then phi - 2 * pi else phi) \<rparr>"

definition empty_tables :: tables where
  "empty_tables =
     \<lparr> emprimarymuons = [], emprimarymuonscov = [], propagateMuon_calls = [],
       fRegistry = [] \<rparr>"

text \<open>
  The global muon of the example, built without the refit and with the QA histograms on.
\<close>

definition example_output :: tables where
  "example_output =
     fillFwdTrackTable (default_config\<lparr>fillQAHistograms := True, refitGlobalMuon := False\<rparr>)
       example_env example_collision example_global False empty_tables"

text \<open>A candidate row with the given collision, track, MFT track and category.\<close>

definition example_muon :: "int \<Rightarrow> int \<Rightarrow> int \<Rightarrow> uint8_t \<Rightarrow> EMPrimaryMuon" where
  "example_muon c f m t =
     \<lparr> em_collisionId = c, em_fwdtrackId = f, em_mfttrackId = m, em_mchtrackId = 0,
       em_trackType = t, em_pt = 1, em_eta = - 3, em_phi = 0, em_sign = 1,
       em_dcaX = 0, em_dcaY = 0, em_cXXatDCA = 1, em_cYYatDCA = 1, em_cXYatDCA = 0,
       em_ptMatchedMCHMID = 1, em_etaMatchedMCHMID = - 3, em_phiMatchedMCHMID = 0,
       em_nClusters = 10, em_pDCA = 0, em_rAtAbsorberEnd = 30, em_chi2 = 1,
       em_chi2MatchMCHMID = 1, em_chi2MatchMCHMFT = 1, em_mchBitMap = 0,
       em_midBitMap = 0, em_midBoards = 0, em_mftClusterSizesAndTrackFlags = 0,
       em_chi2mft = 1, em_isAssociatedToMPC = True, em_isAmbiguous = False \<rparr>"

text \<open>
  A candidate table: two rows of the same track in two collisions, a second global muon
  on the same MFT track in the first collision, and a standalone muon.
\<close>

definition example_muons :: "EMPrimaryMuon list" where
  "example_muons =
     [example_muon 0 5 1 GlobalMuonTrack, example_muon 1 5 1 GlobalMuonTrack,
      example_muon 0 7 1 GlobalMuonTrack, example_muon 0 3 (- 1) MuonStandaloneTrack]"

section \<open>Properties\<close>

subsection \<open>Auxiliary facts\<close>

lemma track_types_distinct: "GlobalMuonTrack \<noteq> MuonStandaloneTrack"
  by (simp add: GlobalMuonTrack_def MuonStandaloneTrack_def)

lemma sqrt_25: "sqrt 25 = 5" using real_sqrt_abs [of 5] by simp
lemma sqrt_2500: "sqrt 2500 = 50" using real_sqrt_abs [of 50] by simp

lemmas example_defs = example_collision_def example_global_def example_standalone_def
  example_mft_def example_state_def example_env_def empty_tables_def default_config_def
  GlobalMuonTrack_def MuonStandaloneTrack_def

lemma ndf_mchmft_nonzero: "2 * (n + m) - 5 \<noteq> (0::int)"
  by presburger

lemma candidateRow_sel:
  "em_pt (candidateRow c t a d l) = l_pt l"
  "em_eta (candidateRow c t a d l) = l_eta l"
  "em_phi (candidateRow c t a d l) = l_phi l"
  "em_pDCA (candidateRow c t a d l) = l_pDCA l"
  "em_rAtAbsorberEnd (candidateRow c t a d l) = l_rAtAbsorberEnd l"
  "em_chi2 (candidateRow c t a d l) = chi2 t"
  "em_trackType (candidateRow c t a d l) = trackType t"
  "em_dcaX (candidateRow c t a d l) = dcaX d"
  "em_dcaY (candidateRow c t a d l) = dcaY d"
  "em_collisionId (candidateRow c t a d l) = collision_globalIndex c"
  "em_fwdtrackId (candidateRow c t a d l) = globalIndex t"
  by (simp_all add: candidateRow_def)

lemma fillQA_tables:
  "emprimarymuons (fillQA cfg t d l s) = emprimarymuons s"
  "emprimarymuonscov (fillQA cfg t d l s) = emprimarymuonscov s"
  "propagateMuon_calls (fillQA cfg t d l s) = propagateMuon_calls s"
  by (simp_all add: fillQA_def)

lemma selectAndFill_tables:
  "emprimarymuons (selectAndFill cfg c t a pv d l s) =
     (if isSelected cfg (Fin (l_pt l)) (Fin (l_eta l)) (Fin (l_rAtAbsorberEnd l))
            (Fin (l_pDCA l)) (Fin (chi2 t / real_of_int (l_ndf_mchmft l)))
            (trackType t) (Fin (dcaXY d))
      then emprimarymuons s @ [candidateRow c t a d l] else emprimarymuons s)"
  "emprimarymuonscov (selectAndFill cfg c t a pv d l s) =
     (if isSelected cfg (Fin (l_pt l)) (Fin (l_eta l)) (Fin (l_rAtAbsorberEnd l))
            (Fin (l_pDCA l)) (Fin (chi2 t / real_of_int (l_ndf_mchmft l)))
            (trackType t) (Fin (dcaXY d))
      then emprimarymuonscov s @ [fwdcov_row pv] else emprimarymuonscov s)"
  "propagateMuon_calls (selectAndFill cfg c t a pv d l s) = propagateMuon_calls s"
  by (simp_all add: selectAndFill_def fillQA_tables Let_def)

lemma dcaQuantities_sel:
  "dcaX (dcaQuantities t c) = getX t - posX c"
  "dcaY (dcaQuantities t c) = getY t - posY c"
  "dcaXY (dcaQuantities t c) =
     sqrt ((getX t - posX c) * (getX t - posX c) + (getY t - posY c) * (getY t - posY c))"
  "det (dcaQuantities t c) = getSigma2X t * getSigma2Y t - getSigmaXY t * getSigmaXY t"
  by (simp_all add: dcaQuantities_def Let_def)

text \<open>The predicate on finite arguments, as the builder calls it.\<close>

lemma isSelected_Fin:
  "isSelected cfg (Fin pt) (Fin eta) (Fin r) (Fin pDCA) (Fin chi2ndf) tt (Fin dxy) =
     (if pt < minPt cfg \<or> maxPt cfg < pt then False
      else if r < minRabs cfg \<or> maxRabs cfg < r then False
      else if (if r < midRabs cfg then pDCA > maxPDCAforSmallR cfg
               else pDCA > maxPDCAforLargeR cfg) then False
      else if tt = GlobalMuonTrack then
        (if eta < minEtaGL cfg \<or> maxEtaGL cfg < eta then False
         else if maxDCAxy cfg < dxy then False
         else if maxChi2GL cfg < chi2ndf then False
         else if r < minRabsGL cfg \<or> maxRabs cfg < r then False
         else True)
      else if tt = MuonStandaloneTrack then
        (if eta < minEtaSA cfg \<or> maxEtaSA cfg < eta then False
         else if maxChi2SA cfg < chi2ndf then False
         else True)
      else False)"
  by (simp add: isSelected_def)

lemma isSelected_global_rejects:
  "r < minRabsGL cfg \<or> maxRabs cfg < r \<Longrightarrow>
     \<not> isSelected cfg (Fin pt) (Fin eta) (Fin r) (Fin pDCA) (Fin chi2ndf) GlobalMuonTrack (Fin dxy)"
  "maxDCAxy cfg < dxy \<Longrightarrow>
     \<not> isSelected cfg (Fin pt) (Fin eta) (Fin r) (Fin pDCA) (Fin chi2ndf) GlobalMuonTrack (Fin dxy)"
  "maxChi2GL cfg < chi2ndf \<Longrightarrow>
     \<not> isSelected cfg (Fin pt) (Fin eta) (Fin r) (Fin pDCA) (Fin chi2ndf) GlobalMuonTrack (Fin dxy)"
  by (auto simp add: isSelected_Fin)

lemma not_ieee_less:
  "x \<noteq> NaN \<Longrightarrow> y \<noteq> NaN \<Longrightarrow> (\<not> ieee_less x y) = ieee_le y x"
  by (cases x; cases y) auto

lemma two_pi_gt_one: "\<not> 2 * pi < 1"
  using pi_ge_two by simp

lemmas unfold_builder = fillFwdTrackTable_def call_propagateMuon_def globalMuonBranch_def
  standaloneMuonBranch_def selectAndFill_tables initialLocals_def Let_def

lemma selectAndFill_fRegistry:
  "fRegistry (selectAndFill cfg c t a pv d l s) =
     (if isSelected cfg (Fin (l_pt l)) (Fin (l_eta l)) (Fin (l_rAtAbsorberEnd l))
            (Fin (l_pDCA l)) (Fin (chi2 t / real_of_int (l_ndf_mchmft l)))
            (trackType t) (Fin (dcaXY d))
      then fRegistry (fillQA cfg t d l s) else fRegistry s)"
  by (simp add: selectAndFill_def fillQA_def Let_def)

lemma fill_lengths:
  "length (emprimarymuons (fillFwdTrackTable cfg env collision fwdtrack isAmbiguous s))
     - length (emprimarymuons s)
   = length (emprimarymuonscov (fillFwdTrackTable cfg env collision fwdtrack isAmbiguous s))
     - length (emprimarymuonscov s)
   \<and> length (emprimarymuons s)
       \<le> length (emprimarymuons (fillFwdTrackTable cfg env collision fwdtrack isAmbiguous s))
   \<and> length (emprimarymuonscov s)
       \<le> length (emprimarymuonscov (fillFwdTrackTable cfg env collision fwdtrack isAmbiguous s))"
  by (simp add: unfold_builder)

lemma fill_fold_lengths:
  "length (emprimarymuons s) = length (emprimarymuonscov s) \<Longrightarrow>
   length (emprimarymuons (fold (\<lambda>(c, t, a). fillFwdTrackTable cfg env c t a) calls s))
   = length (emprimarymuonscov (fold (\<lambda>(c, t, a). fillFwdTrackTable cfg env c t a) calls s))"
proof (induction calls arbitrary: s)
  case Nil
  then show ?case by simp
next
  case (Cons call calls)
  obtain c t a where call: "call = (c, t, a)" by (cases call) auto
  have "length (emprimarymuons (fillFwdTrackTable cfg env c t a s))
      = length (emprimarymuonscov (fillFwdTrackTable cfg env c t a s))"
    using fill_lengths [of cfg env c t a s] Cons.prems by linarith
  then show ?case using Cons.IH call by simp
qed

lemma example_output_rows:
  "emprimarymuons example_output =
     [candidateRow example_collision example_global False
        (dcaQuantities (example_state 1 0 2 (- 3) 1 20 2) example_collision)
        \<lparr> l_pt = 2, l_eta = - 3, l_phi = 1, l_rAtAbsorberEnd = 30, l_pDCA = 50,
          l_ptMatchedMCHMID = 1, l_etaMatchedMCHMID = - 3, l_phiMatchedMCHMID = 1,
          l_chi2mft = 4, l_mftClusterSizesAndTrackFlags = 0, l_ndf_mchmft = 25 \<rparr>]"
  by (simp add: example_output_def unfold_builder example_defs isSelected_Fin sqrt_25
      dcaQuantities_sel two_pi_gt_one)

text \<open>The identity behind the refit: \<open>sin (2 atan x) = 2x / (1 + x\<^sup>2)\<close>, and its size at \<open>exp 3\<close>.\<close>

lemma sin_two_arctan: "sin (2 * arctan x) = 2 * x / (1 + x\<^sup>2)"
proof -
  have "sqrt (1 + x\<^sup>2) * sqrt (1 + x\<^sup>2) = 1 + x\<^sup>2"
    by (simp add: add_nonneg_nonneg)
  then show ?thesis
    by (simp add: sin_double sin_arctan cos_arctan)
qed

lemma exp_three_bounds: "1 \<le> exp (3::real) \<and> exp (3::real) \<le> 27"
proof -
  have "exp (3::real) = exp 1 ^ 3"
    using exp_of_nat_mult [of 3 "1::real"] by simp
  moreover have "exp (1::real) ^ 3 \<le> 3 ^ 3"
    by (rule power_mono) (simp_all add: exp_le)
  ultimately show ?thesis by simp
qed

lemma sin_not_huge: "\<not> 1000000000 < sin (x::real)"
  using sin_le_one [of x] by linarith

lemma refit_pt_bounds:
  "1 / 50 \<le> sin (2 * arctan (exp 3)) \<and> sin (2 * arctan (exp 3)) \<le> 1"
proof -
  define x where "x = exp (3::real)"
  have x: "1 \<le> x" "x \<le> 27" using exp_three_bounds by (simp_all add: x_def)
  have sq: "x * x \<le> 27 * x" using x by (simp add: mult_right_mono)
  have "1 + x\<^sup>2 \<le> 100 * x" unfolding power2_eq_square using sq x by linarith
  moreover have "0 < 1 + x\<^sup>2" by (simp add: add_pos_nonneg)
  ultimately have "1 / 50 \<le> 2 * x / (1 + x\<^sup>2)"
    by (simp add: field_simps)
  then have "1 / 50 \<le> sin (2 * arctan (exp 3))"
    by (simp only: sin_two_arctan x_def)
  then show ?thesis using sin_le_one [of "2 * arctan (exp 3)"] by blast
qed

lemma example_global_refit_rows:
  "emprimarymuons (fillFwdTrackTable default_config example_env example_collision
       example_global True empty_tables) =
     [candidateRow example_collision example_global True
        (dcaQuantities (example_state 1 0 2 (- 3) 1 20 2) example_collision)
        \<lparr> l_pt = 10 * sin (2 * arctan (exp 3)), l_eta = - 3, l_phi = 2 * pi - 1,
          l_rAtAbsorberEnd = 30, l_pDCA = 50,
          l_ptMatchedMCHMID = 1, l_etaMatchedMCHMID = - 3, l_phiMatchedMCHMID = 1,
          l_chi2mft = 4, l_mftClusterSizesAndTrackFlags = 0, l_ndf_mchmft = 25 \<rparr>]"
  using refit_pt_bounds
  by (simp add: unfold_builder example_defs isSelected_Fin sqrt_25
      dcaQuantities_sel two_pi_gt_one sin_not_huge)

lemma example_standalone_rows:
  "emprimarymuons (fillFwdTrackTable default_config example_env example_collision
       example_standalone False empty_tables) =
     [candidateRow example_collision example_standalone False
        (dcaQuantities (example_state 3 4 1 (- 3) 1 10 0) example_collision)
        \<lparr> l_pt = 1, l_eta = - 3, l_phi = 1,
          l_rAtAbsorberEnd = 50, l_pDCA = 50,
          l_ptMatchedMCHMID = 1, l_etaMatchedMCHMID = - 3, l_phiMatchedMCHMID = 1,
          l_chi2mft = 0, l_mftClusterSizesAndTrackFlags = 0, l_ndf_mchmft = 1 \<rparr>]"
  by (simp add: unfold_builder example_defs isSelected_Fin sqrt_25 sqrt_2500
      dcaQuantities_sel two_pi_gt_one)

text \<open>The two producers as list comprehensions over the table.\<close>

lemma enumerate_as_map: "enumerate 0 xs = map (\<lambda>j. (j, xs ! j)) [0..<length xs]"
  by (rule nth_equalityI) (simp_all add: nth_enumerate_eq)

lemma associateAmbiguousMuon_inner_eq:
  "associateAmbiguousMuon_inner i rows acc =
     acc @ map (\<lambda>(j, row). int j) (filter (\<lambda>(j, row). j \<noteq> i) rows)"
  by (induction i rows acc rule: associateAmbiguousMuon_inner.induct) simp_all

lemma associateAmbiguousMuon_loop_eq:
  "snd (associateAmbiguousMuon_loop muons rest ([], out)) =
     out @ map (\<lambda>(i, muon). map (\<lambda>(j, row). int j)
                 (filter (\<lambda>(j, row). j \<noteq> i)
                    (sliceBy em_fwdtrackId muons (em_fwdtrackId muon)))) rest"
  by (induction rest arbitrary: out) (auto simp add: associateAmbiguousMuon_inner_eq Let_def)

lemma associateAmbiguousMuon_process_nth:
  assumes "i < length muons"
  shows "associateAmbiguousMuon_process muons ! i =
     map int (filter (\<lambda>j. j \<noteq> i \<and> em_fwdtrackId (muons ! j) = em_fwdtrackId (muons ! i))
        [0..<length muons])"
  using assms
  by (simp add: associateAmbiguousMuon_process_def associateAmbiguousMuon_loop_eq
      nth_enumerate_eq sliceBy_def)
     (simp add: enumerate_as_map filter_map comp_def conj_commute)

lemma associateSameMFT_inner_eq:
  "associateSameMFT_inner i muon rows acc =
     acc @ map (\<lambda>(j, row). int j)
        (filter (\<lambda>(j, row). j \<noteq> i \<and> em_collisionId row = em_collisionId muon) rows)"
  by (induction i muon rows acc rule: associateSameMFT_inner.induct) simp_all

lemma associateSameMFT_loop_eq:
  "snd (associateSameMFT_loop muons rest ([], out)) =
     out @ map (\<lambda>(i, muon).
        if em_trackType muon = GlobalMuonTrack
        then map (\<lambda>(j, row). int j)
                 (filter (\<lambda>(j, row). j \<noteq> i \<and> em_collisionId row = em_collisionId muon)
                    (sliceBy em_mfttrackId muons (em_mfttrackId muon)))
        else []) rest"
  by (induction rest arbitrary: out) (auto simp add: associateSameMFT_inner_eq Let_def)

lemma associateSameMFT_process_nth:
  assumes "i < length muons"
  shows "associateSameMFT_process muons ! i =
     (if em_trackType (muons ! i) = GlobalMuonTrack
      then map int (filter (\<lambda>j. j \<noteq> i
                               \<and> em_mfttrackId (muons ! j) = em_mfttrackId (muons ! i)
                               \<and> em_collisionId (muons ! j) = em_collisionId (muons ! i))
              [0..<length muons])
      else [])"
  using assms
  by (simp add: associateSameMFT_process_def associateSameMFT_loop_eq
      nth_enumerate_eq sliceBy_def)
     (simp add: enumerate_as_map filter_map comp_def conj_commute conj_left_commute)

lemma associateSameMFT_process_length:
  "length (associateSameMFT_process muons) = length muons"
  by (simp add: associateSameMFT_process_def associateSameMFT_loop_eq)

lemma associateAmbiguousMuon_process_length:
  "length (associateAmbiguousMuon_process muons) = length muons"
  by (simp add: associateAmbiguousMuon_process_def associateAmbiguousMuon_loop_eq)

lemmas example_muons_defs = example_muons_def example_muon_def GlobalMuonTrack_def
  MuonStandaloneTrack_def

lemma example_muons_ambiguous:
  "associateAmbiguousMuon_process example_muons = [ [1], [0], [], [] ]"
  by (simp add: associateAmbiguousMuon_process_def sliceBy_def example_muons_defs)

lemma example_muons_same_mft:
  "associateSameMFT_process example_muons = [ [2], [], [0], [] ]"
  by (simp add: associateSameMFT_process_def sliceBy_def example_muons_defs)

subsection \<open>The acceptance predicate\<close>

text \<open>
  The claim C1 as worded makes \<^verbatim>\<open>isSelected\<close> true only if \<open>pt\<close> lies in
  \<open>[minPt, maxPt]\<close>. Every cut of the source is a rejection test,
  \<^verbatim>\<open>pt < minPt || maxPt < pt\<close> and so on, and a comparison with NaN is false: a NaN
  \<open>pt\<close>, which lies in no interval, passes the cut, and with the other arguments in
  range the predicate returns true.
\<close>

theorem isSelected_NaN_counterexample:
  "isSelected default_config NaN (Fin (- 3)) (Fin 30) (Fin 100) (Fin 2) GlobalMuonTrack (Fin 0.5)
   \<and> \<not> (ieee_le (Fin (minPt default_config)) NaN \<and> ieee_le NaN (Fin (maxPt default_config)))"
  by (simp add: isSelected_def default_config_def)

text \<open>
  Claim C1, amended. For arguments none of which is NaN, \<^verbatim>\<open>isSelected\<close> returns true
  exactly when the conjunction of its cuts holds: \<open>pt\<close> in \<open>[minPt, maxPt]\<close>;
  \<open>rAtAbsorberEnd\<close> in \<open>[minRabs, maxRabs]\<close>; \<open>pDCA\<close> at most \<open>maxPDCAforSmallR\<close>
  below \<open>midRabs\<close> and at most \<open>maxPDCAforLargeR\<close> otherwise; for a global muon
  \<open>eta\<close> in \<open>[minEtaGL, maxEtaGL]\<close>, \<open>dcaXY \<le> maxDCAxy\<close>,
  \<open>chi2_per_ndf \<le> maxChi2GL\<close> and \<open>rAtAbsorberEnd\<close> in \<open>[minRabsGL, maxRabs]\<close>; for a
  standalone muon \<open>eta\<close> in \<open>[minEtaSA, maxEtaSA]\<close> and \<open>chi2_per_ndf \<le> maxChi2SA\<close>;
  every other category is rejected. The right-hand side is a plain conjunction, so the
  order in which the source tests the cuts does not show in the result.
\<close>

theorem isSelected_iff_conjunction_without_NaN:
  assumes "pt \<noteq> NaN" and "eta \<noteq> NaN" and "r \<noteq> NaN" and "pDCA \<noteq> NaN"
    and "chi2_per_ndf \<noteq> NaN" and "dxy \<noteq> NaN"
  shows "isSelected cfg pt eta r pDCA chi2_per_ndf tt dxy \<longleftrightarrow>
     (ieee_le (Fin (minPt cfg)) pt \<and> ieee_le pt (Fin (maxPt cfg)))
   \<and> (ieee_le (Fin (minRabs cfg)) r \<and> ieee_le r (Fin (maxRabs cfg)))
   \<and> (if ieee_less r (Fin (midRabs cfg)) then ieee_le pDCA (Fin (maxPDCAforSmallR cfg))
       else ieee_le pDCA (Fin (maxPDCAforLargeR cfg)))
   \<and> (tt = GlobalMuonTrack \<longrightarrow>
         (ieee_le (Fin (minEtaGL cfg)) eta \<and> ieee_le eta (Fin (maxEtaGL cfg)))
         \<and> ieee_le dxy (Fin (maxDCAxy cfg))
         \<and> ieee_le chi2_per_ndf (Fin (maxChi2GL cfg))
         \<and> (ieee_le (Fin (minRabsGL cfg)) r \<and> ieee_le r (Fin (maxRabs cfg))))
   \<and> (tt = MuonStandaloneTrack \<longrightarrow>
         (ieee_le (Fin (minEtaSA cfg)) eta \<and> ieee_le eta (Fin (maxEtaSA cfg)))
         \<and> ieee_le chi2_per_ndf (Fin (maxChi2SA cfg)))
   \<and> (tt = GlobalMuonTrack \<or> tt = MuonStandaloneTrack)"
proof -
  have cuts:
    "\<And>t. (\<not> ieee_less pt (Fin t)) = ieee_le (Fin t) pt"
    "\<And>t. (\<not> ieee_less (Fin t) pt) = ieee_le pt (Fin t)"
    "\<And>t. (\<not> ieee_less eta (Fin t)) = ieee_le (Fin t) eta"
    "\<And>t. (\<not> ieee_less (Fin t) eta) = ieee_le eta (Fin t)"
    "\<And>t. (\<not> ieee_less r (Fin t)) = ieee_le (Fin t) r"
    "\<And>t. (\<not> ieee_less (Fin t) r) = ieee_le r (Fin t)"
    "\<And>t. (\<not> ieee_less (Fin t) pDCA) = ieee_le pDCA (Fin t)"
    "\<And>t. (\<not> ieee_less (Fin t) chi2_per_ndf) = ieee_le chi2_per_ndf (Fin t)"
    "\<And>t. (\<not> ieee_less (Fin t) dxy) = ieee_le dxy (Fin t)"
    using assms by (simp_all add: not_ieee_less)
  show ?thesis
    unfolding isSelected_def cuts [symmetric]
    using track_types_distinct by auto
qed

text \<open>
  Finite arguments, among them the scenario of the specification (a standalone muon
  with \<open>pt = 0.15\<close> is rejected and with \<open>pt = 0.25\<close> accepted), and an infinite
  \<open>pt\<close>, which is above \<open>maxPt\<close>.
\<close>

theorem isSelected_iff_conjunction_without_NaN_witness:
  "Fin 1 \<noteq> NaN \<and> Fin (- 3) \<noteq> NaN \<and> Fin 30 \<noteq> NaN \<and> Fin 100 \<noteq> NaN \<and> Fin 2 \<noteq> NaN
   \<and> Fin 0.5 \<noteq> NaN \<and> PInf \<noteq> NaN
   \<and> isSelected default_config (Fin 1) (Fin (- 3)) (Fin 30) (Fin 100) (Fin 2)
        GlobalMuonTrack (Fin 0.5)
   \<and> \<not> isSelected default_config (Fin 1) (Fin (- 3)) (Fin 20) (Fin 100) (Fin 2)
        GlobalMuonTrack (Fin 0.5)
   \<and> isSelected default_config (Fin 1) (Fin (- 3)) (Fin 20) (Fin 100) (Fin 2)
        MuonStandaloneTrack (Fin 0.5)
   \<and> \<not> isSelected default_config (Fin 1) (Fin (- 3)) (Fin 30) (Fin 100) (Fin 2)
        MCHStandaloneTrack (Fin 0.5)
   \<and> \<not> isSelected default_config (Fin 0.15) (Fin (- 3)) (Fin 20) (Fin 100) (Fin 2)
        MuonStandaloneTrack (Fin 0.5)
   \<and> isSelected default_config (Fin 0.25) (Fin (- 3)) (Fin 20) (Fin 100) (Fin 2)
        MuonStandaloneTrack (Fin 0.5)
   \<and> \<not> isSelected default_config PInf (Fin (- 3)) (Fin 30) (Fin 100) (Fin 2)
        GlobalMuonTrack (Fin 0.5)"
  using
    isSelected_iff_conjunction_without_NaN [of "Fin 1" "Fin (- 3)" "Fin 30" "Fin 100" "Fin 2"
      "Fin 0.5" default_config GlobalMuonTrack]
    isSelected_iff_conjunction_without_NaN [of "Fin 1" "Fin (- 3)" "Fin 20" "Fin 100" "Fin 2"
      "Fin 0.5" default_config GlobalMuonTrack]
    isSelected_iff_conjunction_without_NaN [of "Fin 1" "Fin (- 3)" "Fin 20" "Fin 100" "Fin 2"
      "Fin 0.5" default_config MuonStandaloneTrack]
    isSelected_iff_conjunction_without_NaN [of "Fin 1" "Fin (- 3)" "Fin 30" "Fin 100" "Fin 2"
      "Fin 0.5" default_config MCHStandaloneTrack]
    isSelected_iff_conjunction_without_NaN [of "Fin 0.15" "Fin (- 3)" "Fin 20" "Fin 100" "Fin 2"
      "Fin 0.5" default_config MuonStandaloneTrack]
    isSelected_iff_conjunction_without_NaN [of "Fin 0.25" "Fin (- 3)" "Fin 20" "Fin 100" "Fin 2"
      "Fin 0.5" default_config MuonStandaloneTrack]
    isSelected_iff_conjunction_without_NaN [of PInf "Fin (- 3)" "Fin 30" "Fin 100" "Fin 2"
      "Fin 0.5" default_config GlobalMuonTrack]
  by (simp add: default_config_def GlobalMuonTrack_def MuonStandaloneTrack_def
      MCHStandaloneTrack_def)

subsection \<open>The candidate builder: early returns\<close>

text \<open>
  Claim C5. A global muon whose \<open>chi2MatchMCHMFT\<close> exceeds \<open>maxMatchingChi2MCHMFT\<close>,
  and any track whose \<open>chi2MatchMCHMID\<close> or \<open>chi2\<close> is negative, makes
  \<^verbatim>\<open>fillFwdTrackTable\<close> return at once: the state is unchanged, so the propagation
  engine has not been called and no row has been written.
\<close>

theorem early_rejection_before_propagation:
  assumes "(trackType fwdtrack = GlobalMuonTrack
              \<and> chi2MatchMCHMFT fwdtrack > maxMatchingChi2MCHMFT cfg)
           \<or> chi2MatchMCHMID fwdtrack < 0 \<or> chi2 fwdtrack < 0"
  shows "fillFwdTrackTable cfg env collision fwdtrack isAmbiguous s = s
     \<and> propagateMuon_calls (fillFwdTrackTable cfg env collision fwdtrack isAmbiguous s)
         = propagateMuon_calls s
     \<and> emprimarymuons (fillFwdTrackTable cfg env collision fwdtrack isAmbiguous s)
         = emprimarymuons s
     \<and> emprimarymuonscov (fillFwdTrackTable cfg env collision fwdtrack isAmbiguous s)
         = emprimarymuonscov s"
proof -
  have "fillFwdTrackTable cfg env collision fwdtrack isAmbiguous s = s"
    using assms by (auto simp add: fillFwdTrackTable_def)
  then show ?thesis by simp
qed

text \<open>
  The scenario of the specification: \<open>chi2MatchMCHMFT = 60\<close> against the default
  ceiling of 50.
\<close>

theorem early_rejection_before_propagation_witness:
  "chi2MatchMCHMFT (example_global\<lparr>chi2MatchMCHMFT := 60\<rparr>) > maxMatchingChi2MCHMFT default_config
   \<and> propagateMuon_calls (fillFwdTrackTable default_config example_env example_collision
        (example_global\<lparr>chi2MatchMCHMFT := 60\<rparr>) False empty_tables) = []
   \<and> emprimarymuons (fillFwdTrackTable default_config example_env example_collision
        (example_global\<lparr>chi2MatchMCHMFT := 60\<rparr>) False empty_tables) = []
   \<and> chi2 (example_standalone\<lparr>chi2 := - 1\<rparr>) < 0
   \<and> propagateMuon_calls (fillFwdTrackTable default_config example_env example_collision
        (example_standalone\<lparr>chi2 := - 1\<rparr>) False empty_tables) = []
   \<and> chi2MatchMCHMID (example_standalone\<lparr>chi2MatchMCHMID := - 1\<rparr>) < 0
   \<and> propagateMuon_calls (fillFwdTrackTable default_config example_env example_collision
        (example_standalone\<lparr>chi2MatchMCHMID := - 1\<rparr>) False empty_tables) = []"
  using early_rejection_before_propagation [of "example_global\<lparr>chi2MatchMCHMFT := 60\<rparr>"
      default_config example_env example_collision False empty_tables]
    early_rejection_before_propagation [of "example_standalone\<lparr>chi2 := - 1\<rparr>"
      default_config example_env example_collision False empty_tables]
    early_rejection_before_propagation [of "example_standalone\<lparr>chi2MatchMCHMID := - 1\<rparr>"
      default_config example_env example_collision False empty_tables]
  by (simp add: example_defs)

text \<open>
  The call log is not idle: a track that passes the three tests is propagated to the
  vertex and to the DCA plane before anything else happens.
\<close>

lemma propagation_after_early_tests:
  assumes "\<not> ((trackType fwdtrack = GlobalMuonTrack
              \<and> chi2MatchMCHMFT fwdtrack > maxMatchingChi2MCHMFT cfg)
           \<or> chi2MatchMCHMID fwdtrack < 0 \<or> chi2 fwdtrack < 0)"
  shows "take 2 (drop (length (propagateMuon_calls s))
           (propagateMuon_calls (fillFwdTrackTable cfg env collision fwdtrack isAmbiguous s)))
         = [(globalIndex fwdtrack, kToVertex), (globalIndex fwdtrack, kToDCA)]"
  using assms
  by (simp add: fillFwdTrackTable_def call_propagateMuon_def globalMuonBranch_def
      standaloneMuonBranch_def selectAndFill_tables Let_def split: option.splits)

subsection \<open>The candidate builder: what is written\<close>

text \<open>
  Claim C2. Whether a call of \<^verbatim>\<open>fillFwdTrackTable\<close> writes is decided by the
  acceptance predicate on the final metrics of the track. If the call does not return at
  its first three tests and \<^verbatim>\<open>isSelected\<close> accepts the final metrics, exactly one row is
  appended to \<^verbatim>\<open>emprimarymuons\<close> and exactly one to \<^verbatim>\<open>emprimarymuonscov\<close>; otherwise
  both tables are left as they were. The covariance row is the 15 entries
  \<open>(0,0), (0,1), (1,1), (2,0), ..., (4,4)\<close> of the covariance of \<open>propmuonAtPV\<close>, the
  propagation of the track itself to the vertex, for every configuration and so for
  either value of \<open>refitGlobalMuon\<close>; the propagation of the matched MCH-MID track does
  not enter it. Hence after any sequence of calls the two tables have the same number
  of rows, row \<open>n\<close> of one belonging to row \<open>n\<close> of the other.
\<close>

theorem rows_appended_together:
  "(let s' = fillFwdTrackTable cfg env collision fwdtrack isAmbiguous s;
        propmuonAtPV = propagateMuon env fwdtrack collision kToVertex;
        propmuonAtDCA = propagateMuon env fwdtrack collision kToDCA;
        propmuonAtRabs = propagateMuon env fwdtrack collision kToRabs;
        dX = getX propmuonAtDCA - posX collision;
        dY = getY propmuonAtDCA - posY collision;
        dXY = sqrt (dX * dX + dY * dY);
        mchtrack = matchMCHTrack_as env fwdtrack;
        mfttrack = matchMFTTrack_as env fwdtrack;
        propmuonAtPV_Matched = propagateMuon env mchtrack collision kToVertex;
        propmuonAtDCA_Matched = propagateMuon env mchtrack collision kToDCA;
        dX_Matched = getX propmuonAtDCA_Matched - posX collision;
        dY_Matched = getY propmuonAtDCA_Matched - posY collision;
        dXY_Matched = sqrt (dX_Matched * dX_Matched + dY_Matched * dY_Matched);
        ndf = 2 * (nClusters mchtrack + mft_nClusters mfttrack) - 5;
        returned_early =
          ((trackType fwdtrack = GlobalMuonTrack
              \<and> chi2MatchMCHMFT fwdtrack > maxMatchingChi2MCHMFT cfg)
           \<or> chi2MatchMCHMID fwdtrack < 0 \<or> chi2 fwdtrack < 0);
        selected =
          (if trackType fwdtrack = GlobalMuonTrack then
             isSelected cfg
               (Fin (if refitGlobalMuon cfg
                     then getP propmuonAtPV_Matched * sin (2 * arctan (exp (- mft_eta mfttrack)))
                     else getPt propmuonAtPV))
               (Fin (if refitGlobalMuon cfg then mft_eta mfttrack else getEta propmuonAtPV))
               (Fin (rAtAbsorberEnd fwdtrack))
               (Fin (p mchtrack * dXY_Matched))
               (Fin (chi2 fwdtrack / real_of_int ndf))
               GlobalMuonTrack (Fin dXY)
           else trackType fwdtrack = MuonStandaloneTrack
             \<and> isSelected cfg (Fin (getPt propmuonAtPV)) (Fin (getEta propmuonAtPV))
                 (Fin (sqrt (getX propmuonAtRabs * getX propmuonAtRabs
                             + getY propmuonAtRabs * getY propmuonAtRabs)))
                 (Fin (p fwdtrack * dXY))
                 (Fin (chi2 fwdtrack))
                 MuonStandaloneTrack (Fin dXY));
        fwdcov = getCovariances propmuonAtPV
    in (\<not> returned_early \<and> selected \<longrightarrow>
          (\<exists>row. emprimarymuons s' = emprimarymuons s @ [row]
             \<and> em_collisionId row = collision_globalIndex collision
             \<and> em_fwdtrackId row = globalIndex fwdtrack
             \<and> isSelected cfg (Fin (em_pt row)) (Fin (em_eta row)) (Fin (em_rAtAbsorberEnd row))
                  (Fin (em_pDCA row))
                  (Fin (em_chi2 row
                        / real_of_int (if em_trackType row = GlobalMuonTrack then ndf else 1)))
                  (em_trackType row)
                  (Fin (sqrt (em_dcaX row * em_dcaX row + em_dcaY row * em_dcaY row))))
          \<and> emprimarymuonscov s' = emprimarymuonscov s @
               [ [fwdcov 0 0,
                  fwdcov 0 1, fwdcov 1 1,
                  fwdcov 2 0, fwdcov 2 1, fwdcov 2 2,
                  fwdcov 3 0, fwdcov 3 1, fwdcov 3 2, fwdcov 3 3,
                  fwdcov 4 0, fwdcov 4 1, fwdcov 4 2, fwdcov 4 3, fwdcov 4 4] ])
     \<and> (returned_early \<or> \<not> selected \<longrightarrow>
          emprimarymuons s' = emprimarymuons s \<and> emprimarymuonscov s' = emprimarymuonscov s))
   \<and> (length (emprimarymuons s) = length (emprimarymuonscov s) \<longrightarrow>
        length (emprimarymuons (fold (\<lambda>(c, t, a). fillFwdTrackTable cfg env c t a) calls s))
        = length (emprimarymuonscov
                    (fold (\<lambda>(c, t, a). fillFwdTrackTable cfg env c t a) calls s)))"
proof -
  have early: "(trackType fwdtrack = GlobalMuonTrack
              \<and> chi2MatchMCHMFT fwdtrack > maxMatchingChi2MCHMFT cfg)
           \<or> chi2MatchMCHMID fwdtrack < 0 \<or> chi2 fwdtrack < 0 \<Longrightarrow>
         fillFwdTrackTable cfg env collision fwdtrack isAmbiguous s = s"
    by (auto simp add: fillFwdTrackTable_def)
  have step: ?thesis
    if "length (emprimarymuons s) = length (emprimarymuonscov s) \<longrightarrow>
        length (emprimarymuons (fold (\<lambda>(c, t, a). fillFwdTrackTable cfg env c t a) calls s))
        = length (emprimarymuonscov
                    (fold (\<lambda>(c, t, a). fillFwdTrackTable cfg env c t a) calls s))"
  proof (cases "(trackType fwdtrack = GlobalMuonTrack
              \<and> chi2MatchMCHMFT fwdtrack > maxMatchingChi2MCHMFT cfg)
           \<or> chi2MatchMCHMID fwdtrack < 0 \<or> chi2 fwdtrack < 0")
    case True
    with early that show ?thesis by (simp add: Let_def)
  next
    case False
    show ?thesis
    proof (cases "trackType fwdtrack = GlobalMuonTrack")
      case True
      with False that show ?thesis
        by (simp add: unfold_builder candidateRow_sel dcaQuantities_sel fwdcov_row_def
            isSelected_global_rejects)
    next
      case False
      with \<open>\<not> ((trackType fwdtrack = GlobalMuonTrack
              \<and> chi2MatchMCHMFT fwdtrack > maxMatchingChi2MCHMFT cfg)
           \<or> chi2MatchMCHMID fwdtrack < 0 \<or> chi2 fwdtrack < 0)\<close> that show ?thesis
        by (simp add: unfold_builder candidateRow_sel dcaQuantities_sel fwdcov_row_def
            track_types_distinct)
    qed
  qed
  show ?thesis using step fill_fold_lengths by blast
qed

text \<open>
  The global muon of the example is accepted: one row in each table, the covariance row
  being that of its own state at the vertex (the MCH-MID track's would start with 10).
  The standalone muon with momentum 100 has \<open>pDCA = 500\<close> and is rejected: no row in
  either table.
\<close>

theorem rows_appended_together_witness:
  "length (emprimarymuons example_output) = 1
   \<and> emprimarymuonscov example_output
       = [ [20, 30, 31, 40, 41, 42, 50, 51, 52, 53, 60, 61, 62, 63, 64] ]
   \<and> emprimarymuons (fillFwdTrackTable default_config example_env example_collision
        (example_standalone\<lparr>p := 100\<rparr>) False empty_tables) = []
   \<and> emprimarymuonscov (fillFwdTrackTable default_config example_env example_collision
        (example_standalone\<lparr>p := 100\<rparr>) False empty_tables) = []
   \<and> length (emprimarymuons (fold (\<lambda>(c, t, a).
         fillFwdTrackTable default_config example_env c t a)
         [(example_collision, example_global, True),
          (example_collision, example_global\<lparr>chi2 := - 1\<rparr>, False),
          (example_collision, example_standalone, False)] empty_tables))
     = length (emprimarymuonscov (fold (\<lambda>(c, t, a).
         fillFwdTrackTable default_config example_env c t a)
         [(example_collision, example_global, True),
          (example_collision, example_global\<lparr>chi2 := - 1\<rparr>, False),
          (example_collision, example_standalone, False)] empty_tables))"
  using rows_appended_together [of
      "default_config\<lparr>fillQAHistograms := True, refitGlobalMuon := False\<rparr>"
      example_env example_collision example_global False empty_tables "[]"]
    rows_appended_together [of default_config example_env example_collision
      "example_standalone\<lparr>p := 100\<rparr>" False empty_tables
      "[(example_collision, example_global, True),
        (example_collision, example_global\<lparr>chi2 := - 1\<rparr>, False),
        (example_collision, example_standalone, False)]"]
  unfolding Let_def example_output_def
  by (auto simp add: example_defs isSelected_Fin sqrt_25 sqrt_2500)

text \<open>
  The claim C3 as the specification words it takes \<open>dcaXY\<close> to be the DCA of the
  candidate, the square root of \<open>dcaX\<^sup>2 + dcaY\<^sup>2\<close> of its own propagation to the DCA
  plane, and only swaps the momentum. The global muon of the example has
  \<open>dcaXY = 1\<close> and its MCH-MID track has momentum 10, so that reading gives 10;
  the row holds 50.
\<close>

theorem pDCA_global_counterexample:
  "em_trackType (hd (emprimarymuons example_output)) = GlobalMuonTrack
   \<and> em_pDCA (hd (emprimarymuons example_output))
       \<noteq> p (matchMCHTrack_as example_env example_global)
          * sqrt (em_dcaX (hd (emprimarymuons example_output))
                    * em_dcaX (hd (emprimarymuons example_output))
                  + em_dcaY (hd (emprimarymuons example_output))
                    * em_dcaY (hd (emprimarymuons example_output)))
   \<and> em_pDCA (hd (emprimarymuons example_output)) = 50
   \<and> p (matchMCHTrack_as example_env example_global)
       * sqrt (em_dcaX (hd (emprimarymuons example_output))
                 * em_dcaX (hd (emprimarymuons example_output))
               + em_dcaY (hd (emprimarymuons example_output))
                 * em_dcaY (hd (emprimarymuons example_output))) = 10"
  by (simp add: example_output_rows candidateRow_sel dcaQuantities_sel example_defs)

text \<open>
  Claim C3, amended. For every emitted candidate: if it is a global muon, the stored
  \<open>pDCA\<close> is the momentum of its matched MCH-MID track times the DCA magnitude of that
  MCH-MID track, taken from the propagation of the MCH-MID track to the DCA plane
  (\<open>dcaXY_Matched\<close>), not the \<open>dcaXY\<close> of the candidate; if it is a standalone muon,
  the stored \<open>pDCA\<close> is the momentum of the track times its own \<open>dcaXY\<close>, the square
  root of \<open>dcaX\<^sup>2 + dcaY\<^sup>2\<close> of the row. The stored \<open>dcaX\<close> and \<open>dcaY\<close> are always
  those of the track itself relative to the collision vertex.
\<close>

theorem pDCA_of_emitted_candidate:
  assumes "emprimarymuons (fillFwdTrackTable cfg env collision fwdtrack isAmbiguous s)
             = emprimarymuons s @ [row]"
  shows "(trackType fwdtrack = GlobalMuonTrack \<longrightarrow>
            (let mchtrack = matchMCHTrack_as env fwdtrack;
                 propmuonAtDCA_Matched = propagateMuon env mchtrack collision kToDCA;
                 dcaX_Matched = getX propmuonAtDCA_Matched - posX collision;
                 dcaY_Matched = getY propmuonAtDCA_Matched - posY collision
             in em_pDCA row
                = p mchtrack * sqrt (dcaX_Matched * dcaX_Matched + dcaY_Matched * dcaY_Matched)))
       \<and> (trackType fwdtrack = MuonStandaloneTrack \<longrightarrow>
            em_pDCA row
            = p fwdtrack * sqrt (em_dcaX row * em_dcaX row + em_dcaY row * em_dcaY row))
       \<and> em_dcaX row = getX (propagateMuon env fwdtrack collision kToDCA) - posX collision
       \<and> em_dcaY row = getY (propagateMuon env fwdtrack collision kToDCA) - posY collision"
  using assms
  by (auto simp add: unfold_builder candidateRow_sel dcaQuantities_sel track_types_distinct
      split: if_splits)

theorem pDCA_of_emitted_candidate_witness:
  "emprimarymuons example_output
     = emprimarymuons empty_tables @ [hd (emprimarymuons example_output)]
   \<and> trackType example_global = GlobalMuonTrack
   \<and> em_pDCA (hd (emprimarymuons example_output)) = 10 * sqrt (3 * 3 + 4 * 4)
   \<and> trackType example_standalone = MuonStandaloneTrack
   \<and> em_pDCA (hd (emprimarymuons (fillFwdTrackTable default_config example_env
        example_collision example_standalone False empty_tables))) = 10 * sqrt (3 * 3 + 4 * 4)"
  using pDCA_of_emitted_candidate [of
      "default_config\<lparr>fillQAHistograms := True, refitGlobalMuon := False\<rparr>"
      example_env example_collision example_global False empty_tables
      "hd (emprimarymuons example_output)"]
    pDCA_of_emitted_candidate [of default_config example_env example_collision
      example_standalone False empty_tables
      "hd (emprimarymuons (fillFwdTrackTable default_config example_env
        example_collision example_standalone False empty_tables))"]
  unfolding example_output_def [symmetric] example_output_rows example_standalone_rows
  by (simp add: candidateRow_sel dcaQuantities_sel example_defs Let_def)

text \<open>
  The claim C6 as worded has the emitted \<open>phi\<close> equal to the \<open>phi\<close> of the MFT track.
  The source passes it through \<^verbatim>\<open>bringTo02Pi\<close> first: the MFT track of the example has
  \<open>phi = - 1\<close>, and the row of its global muon, built with the refit, has
  \<open>phi = 2 pi - 1\<close>.
\<close>

theorem refit_phi_counterexample:
  "refitGlobalMuon default_config \<and> trackType example_global = GlobalMuonTrack
   \<and> em_phi (hd (emprimarymuons (fillFwdTrackTable default_config example_env
        example_collision example_global True empty_tables)))
       \<noteq> mft_phi (matchMFTTrack_as example_env example_global)
   \<and> mft_phi (matchMFTTrack_as example_env example_global) = - 1
   \<and> em_phi (hd (emprimarymuons (fillFwdTrackTable default_config example_env
        example_collision example_global True empty_tables))) = 2 * pi - 1"
  unfolding example_global_refit_rows
  by (simp add: candidateRow_sel example_defs)

text \<open>
  Claim C6, amended. With \<open>refitGlobalMuon\<close> set, an emitted global muon has the \<open>eta\<close>
  of its MFT track, the \<open>phi\<close> of its MFT track brought to \<open>[0, 2 pi]\<close> by
  \<^verbatim>\<open>bringTo02Pi\<close>, and \<open>pt = p * sin (2 * atan (exp (- eta)))\<close> with that \<open>eta\<close> and
  with \<open>p\<close> the total momentum of its MCH-MID track propagated to the vertex. With the
  flag unset (and for a standalone muon in any case) \<open>pt\<close> and \<open>eta\<close> are those of the
  propagation of the track itself to the vertex, and \<open>phi\<close> is the \<open>phi\<close> of that
  propagation brought to \<open>[0, 2 pi]\<close>.
\<close>

theorem refit_overwrites_kinematics:
  assumes "emprimarymuons (fillFwdTrackTable cfg env collision fwdtrack isAmbiguous s)
             = emprimarymuons s @ [row]"
  shows "(refitGlobalMuon cfg \<and> trackType fwdtrack = GlobalMuonTrack \<longrightarrow>
            (let mfttrack = matchMFTTrack_as env fwdtrack;
                 propmuonAtPV_Matched =
                   propagateMuon env (matchMCHTrack_as env fwdtrack) collision kToVertex
             in em_eta row = mft_eta mfttrack
                \<and> em_phi row = bringTo02Pi env (mft_phi mfttrack)
                \<and> em_pt row = getP propmuonAtPV_Matched
                               * sin (2 * arctan (exp (- mft_eta mfttrack)))))
       \<and> (\<not> refitGlobalMuon cfg \<or> trackType fwdtrack \<noteq> GlobalMuonTrack \<longrightarrow>
            (let propmuonAtPV = propagateMuon env fwdtrack collision kToVertex
             in em_pt row = getPt propmuonAtPV
                \<and> em_eta row = getEta propmuonAtPV
                \<and> em_phi row = bringTo02Pi env (getPhi propmuonAtPV)))"
  using assms
  by (auto simp add: unfold_builder candidateRow_sel track_types_distinct
      split: if_splits)

theorem refit_overwrites_kinematics_witness:
  "refitGlobalMuon default_config \<and> trackType example_global = GlobalMuonTrack
   \<and> emprimarymuons (fillFwdTrackTable default_config example_env example_collision
        example_global True empty_tables)
     = emprimarymuons empty_tables
       @ [hd (emprimarymuons (fillFwdTrackTable default_config example_env example_collision
            example_global True empty_tables))]
   \<and> em_eta (hd (emprimarymuons (fillFwdTrackTable default_config example_env
        example_collision example_global True empty_tables))) = - 3
   \<and> em_phi (hd (emprimarymuons (fillFwdTrackTable default_config example_env
        example_collision example_global True empty_tables))) = 2 * pi - 1
   \<and> em_pt (hd (emprimarymuons (fillFwdTrackTable default_config example_env
        example_collision example_global True empty_tables)))
     = 10 * sin (2 * arctan (exp 3))
   \<and> \<not> refitGlobalMuon (default_config\<lparr>fillQAHistograms := True, refitGlobalMuon := False\<rparr>)
   \<and> em_pt (hd (emprimarymuons example_output)) = 2
   \<and> em_eta (hd (emprimarymuons example_output)) = - 3
   \<and> em_phi (hd (emprimarymuons example_output)) = 1"
  using refit_overwrites_kinematics [of default_config example_env example_collision
      example_global True empty_tables
      "hd (emprimarymuons (fillFwdTrackTable default_config example_env example_collision
            example_global True empty_tables))"]
    refit_overwrites_kinematics [of
      "default_config\<lparr>fillQAHistograms := True, refitGlobalMuon := False\<rparr>"
      example_env example_collision example_global False empty_tables
      "hd (emprimarymuons example_output)"]
  unfolding example_output_def [symmetric] example_output_rows example_global_refit_rows
  by (simp add: candidateRow_sel example_defs Let_def)

subsection \<open>The DCA significance\<close>



subsection \<open>The early exits of the global-muon branch\<close>

text \<open>
  Claim C7. The three early exits of the global-muon branch (absorber radius outside
  \<open>[minRabsGL, maxRabs]\<close>, \<open>dcaXY > maxDCAxy\<close>, \<open>chi2 / ndf > maxChi2GL\<close>) reject
  only tracks that \<open>isSelected\<close> rejects on the same values: with any of them removed,
  both tables and the QA fills come out the same for every track, and with the three in
  the opposite order the whole state comes out the same. They only save propagation
  calls.
\<close>

theorem early_exits_change_no_outcome:
  "emprimarymuons
     (fillFwdTrackTable_exits rabsExit dcaExit chi2Exit cfg env collision fwdtrack isAmbiguous s)
     = emprimarymuons (fillFwdTrackTable cfg env collision fwdtrack isAmbiguous s)
   \<and> emprimarymuonscov
     (fillFwdTrackTable_exits rabsExit dcaExit chi2Exit cfg env collision fwdtrack isAmbiguous s)
     = emprimarymuonscov (fillFwdTrackTable cfg env collision fwdtrack isAmbiguous s)
   \<and> fRegistry
     (fillFwdTrackTable_exits rabsExit dcaExit chi2Exit cfg env collision fwdtrack isAmbiguous s)
     = fRegistry (fillFwdTrackTable cfg env collision fwdtrack isAmbiguous s)
   \<and> fillFwdTrackTable_reordered cfg env collision fwdtrack isAmbiguous s
     = fillFwdTrackTable cfg env collision fwdtrack isAmbiguous s"
proof -
  have "globalMuonBranch_reordered cfg env collision fwdtrack d l0 s2
        = globalMuonBranch cfg env collision fwdtrack d l0 s2" for d l0 s2
    by (simp add: globalMuonBranch_reordered_def globalMuonBranch_def Let_def)
  then have "fillFwdTrackTable_reordered cfg env collision fwdtrack isAmbiguous s
     = fillFwdTrackTable cfg env collision fwdtrack isAmbiguous s"
    by (simp only: fillFwdTrackTable_reordered_def fillFwdTrackTable_def)
  then show ?thesis
    by (simp add: fillFwdTrackTable_exits_def globalMuonBranch_exits_def unfold_builder
        selectAndFill_fRegistry fillQA_def isSelected_global_rejects)
qed

theorem early_exits_change_no_outcome_witness:
  "rAtAbsorberEnd (example_global\<lparr>rAtAbsorberEnd := 20\<rparr>) < minRabsGL default_config
   \<and> emprimarymuons (fillFwdTrackTable_exits False False False default_config example_env
        example_collision (example_global\<lparr>rAtAbsorberEnd := 20\<rparr>) False empty_tables) = []
   \<and> emprimarymuons (fillFwdTrackTable_exits False False False default_config example_env
        example_collision example_global True empty_tables)
     = emprimarymuons (fillFwdTrackTable default_config example_env
        example_collision example_global True empty_tables)"
  using early_exits_change_no_outcome [of False False False default_config example_env
      example_collision "example_global\<lparr>rAtAbsorberEnd := 20\<rparr>" False empty_tables]
    early_exits_change_no_outcome [of False False False default_config example_env
      example_collision example_global True empty_tables]
  by (simp add: unfold_builder example_defs)

text \<open>Without the exits the rejected track costs two more propagations.\<close>

lemma early_exits_save_propagations:
  "propagateMuon_calls (fillFwdTrackTable default_config example_env
        example_collision (example_global\<lparr>rAtAbsorberEnd := 20\<rparr>) False empty_tables)
     = [(7, kToVertex), (7, kToDCA)]
   \<and> propagateMuon_calls (fillFwdTrackTable_exits False False False default_config example_env
        example_collision (example_global\<lparr>rAtAbsorberEnd := 20\<rparr>) False empty_tables)
     = [(7, kToVertex), (7, kToDCA), (3, kToVertex), (3, kToDCA)]"
  using refit_pt_bounds
  by (simp add: fillFwdTrackTable_exits_def globalMuonBranch_exits_def unfold_builder
      example_defs isSelected_Fin sqrt_25 dcaQuantities_sel two_pi_gt_one sin_not_huge)

subsection \<open>The cross-reference producers\<close>

text \<open>
  Claim C8. \<^verbatim>\<open>associateSameMFT\<close> writes one list per candidate. For a global muon the
  list is, in table order, the indices of the other candidates that have both its MFT
  track and its collision; so two candidates on the same MFT track but in different
  collisions are in neither's list. Every candidate that is not a global muon, a
  standalone muon in particular, gets the empty list.
\<close>

theorem associateSameMFT_lists:
  assumes "i < length muons"
  shows "length (associateSameMFT_process muons) = length muons
     \<and> (em_trackType (muons ! i) = GlobalMuonTrack \<longrightarrow>
          associateSameMFT_process muons ! i
          = map int (filter (\<lambda>j. j \<noteq> i
                               \<and> em_mfttrackId (muons ! j) = em_mfttrackId (muons ! i)
                               \<and> em_collisionId (muons ! j) = em_collisionId (muons ! i))
                      [0..<length muons]))
     \<and> (em_trackType (muons ! i) \<noteq> GlobalMuonTrack \<longrightarrow>
          associateSameMFT_process muons ! i = [])
     \<and> (\<forall>j < length muons.
          em_mfttrackId (muons ! j) = em_mfttrackId (muons ! i)
          \<and> em_collisionId (muons ! j) \<noteq> em_collisionId (muons ! i) \<longrightarrow>
            int j \<notin> set (associateSameMFT_process muons ! i)
            \<and> int i \<notin> set (associateSameMFT_process muons ! j))"
  using assms
  by (auto simp add: associateSameMFT_process_nth associateSameMFT_process_length)

theorem associateSameMFT_lists_witness:
  "(0::nat) < length example_muons \<and> (3::nat) < length example_muons
   \<and> em_trackType (example_muons ! 0) = GlobalMuonTrack
   \<and> em_trackType (example_muons ! 3) \<noteq> GlobalMuonTrack
   \<and> associateSameMFT_process example_muons ! 0 = [2]
   \<and> associateSameMFT_process example_muons ! 3 = []
   \<and> em_mfttrackId (example_muons ! 1) = em_mfttrackId (example_muons ! 0)
   \<and> em_collisionId (example_muons ! 1) \<noteq> em_collisionId (example_muons ! 0)
   \<and> int 1 \<notin> set (associateSameMFT_process example_muons ! 0)
   \<and> int 0 \<notin> set (associateSameMFT_process example_muons ! 1)"
  using associateSameMFT_lists [of 0 example_muons] associateSameMFT_lists [of 3 example_muons]
  unfolding example_muons_same_mft
  by (simp add: example_muons_defs)

text \<open>
  Claim C9. In both cross-reference tables, the list of a candidate never holds the
  index of that candidate.
\<close>

theorem no_self_reference:
  assumes "i < length muons"
  shows "int i \<notin> set (associateAmbiguousMuon_process muons ! i)
       \<and> int i \<notin> set (associateSameMFT_process muons ! i)"
  using assms
  by (auto simp add: associateAmbiguousMuon_process_nth associateSameMFT_process_nth)

theorem no_self_reference_witness:
  "(0::nat) < length example_muons
   \<and> associateAmbiguousMuon_process example_muons ! 0 = [1]
   \<and> associateSameMFT_process example_muons ! 0 = [2]
   \<and> int 0 \<notin> set (associateAmbiguousMuon_process example_muons ! 0)
   \<and> int 0 \<notin> set (associateSameMFT_process example_muons ! 0)"
  using no_self_reference [of 0 example_muons]
  unfolding example_muons_ambiguous example_muons_same_mft
  by (simp add: example_muons_defs)

end
